theory Spec2Isabelle
  imports Complex_Main "HOL-Library.Log_Nat"
begin

section \<open>Adjacency matrices stored as vectors (nltools/data/adjacency.py)\<close>

text \<open>
  The class \<^verbatim>\<open>Adjacency\<close> keeps a square matrix of pairwise relations as a flat numpy
  vector: the upper triangle above the diagonal for a symmetric matrix, the row-major
  flattening for a directed one, and one such row per matrix for a stack.

  Array elements are values of a type \<open>'a\<close> with the arithmetic each function needs. The
  integers, the reals and the machine words are instances. The arithmetic operators
  \<open>+\<close>, \<open>-\<close> and \<open>*\<close> of the class are modelled twice, for an array of an exact
  (integer) dtype and for an array of float64 with its rounding; elsewhere float64 values
  stand as exact numbers, and the infinities and nan are not represented.
\<close>

subsection \<open>Python values\<close>

text \<open>Every \<^verbatim>\<open>raise\<close> of the source, and every exception numpy, scipy or Python raise on
  the paths modelled here, is a value: the exception class and a message.
  \<open>NotModelled\<close> is no exception: it marks a point where the source goes on with a value
  this embedding has no type for (an array of three dimensions or of ragged rows).\<close>

datatype error =
    ValueError string
  | IndexError string
  | TypeError string
  | AttributeError string
  | UnboundLocalError string
  | NotModelled string

text \<open>\<^verbatim>\<open>issymmetric\<close> and \<^verbatim>\<open>is_single_matrix\<close> are booleans, or \<^verbatim>\<open>np.nan\<close> in
  the empty instance. In a Python condition nan is true.\<close>

datatype flag = Flag bool | NaN

fun truthy :: "flag \<Rightarrow> bool" where
  "truthy (Flag b) = b"
| "truthy NaN = True"

text \<open>\<^verbatim>\<open>str.lower\<close> on ASCII letters.\<close>

definition char_lower :: "char \<Rightarrow> char" where
  "char_lower c =
     (let k = (of_char c :: nat) in if 65 \<le> k \<and> k \<le> 90 then char_of (k + 32) else c)"

definition str_lower :: "string \<Rightarrow> string" where
  "str_lower s = map char_lower s"

subsection \<open>numpy arrays of one and two dimensions\<close>

text \<open>\<open>Vec v\<close> is the array of shape \<open>(length v,)\<close>; \<open>Mat c rows\<close> is the array of shape
  \<open>(length rows, c)\<close>, every row of length \<open>c\<close>. \<^verbatim>\<open>np.array([])\<close> is \<open>Vec []\<close>.\<close>

datatype 'a ndarray = Vec "'a list" | Mat nat "'a list list"

fun wf_ndarray :: "'a ndarray \<Rightarrow> bool" where
  "wf_ndarray (Vec v) = True"
| "wf_ndarray (Mat c rows) = list_all (\<lambda>r. length r = c) rows"

fun np_shape :: "'a ndarray \<Rightarrow> nat list" where
  "np_shape (Vec v) = [length v]"
| "np_shape (Mat c rows) = [length rows, c]"

fun shape0 :: "'a ndarray \<Rightarrow> nat" where
  "shape0 (Vec v) = length v"
| "shape0 (Mat c rows) = length rows"

fun ndim :: "'a ndarray \<Rightarrow> nat" where
  "ndim (Vec v) = 1"
| "ndim (Mat c rows) = 2"

fun flatten :: "'a ndarray \<Rightarrow> 'a ndarray" where
  "flatten (Vec v) = Vec v"
| "flatten (Mat c rows) = Vec (concat rows)"

text \<open>\<^verbatim>\<open>data.T\<close>\<close>

fun np_T :: "'a ndarray \<Rightarrow> 'a ndarray" where
  "np_T (Vec v) = Vec v"
| "np_T (Mat c rows) = Mat (length rows) (map (\<lambda>j. map (\<lambda>r. r ! j) rows) [0..<c])"

text \<open>\<^verbatim>\<open>np.triu_indices(n, k=1)\<close>: the positions above the diagonal, row by row.\<close>

definition triu_indices :: "nat \<Rightarrow> (nat \<times> nat) list" where
  "triu_indices n = concat (map (\<lambda>i. map (\<lambda>j. (i, j)) [Suc i..<n]) [0..<n])"

text \<open>\<^verbatim>\<open>data[(ii, jj)]\<close>: indexing with a pair of index arrays needs two dimensions and
  every index in range.\<close>

fun index_pairs :: "'a ndarray \<Rightarrow> (nat \<times> nat) list \<Rightarrow> error + 'a list" where
  "index_pairs (Vec v) ps = Inl (IndexError ''too many indices for array'')"
| "index_pairs (Mat c rows) ps =
     (if list_all (\<lambda>(i, j). i < length rows \<and> j < c) ps
      then Inr (map (\<lambda>(i, j). rows ! i ! j) ps)
      else Inl (IndexError ''index is out of bounds''))"

text \<open>\<^verbatim>\<open>np.sum(np.diag(data))\<close>: the diagonal of a matrix; for a vector \<^verbatim>\<open>np.diag\<close> builds
  the diagonal matrix of it.\<close>

fun sum_diag :: "'a::monoid_add ndarray \<Rightarrow> 'a" where
  "sum_diag (Vec v) = sum_list v"
| "sum_diag (Mat c rows) = sum_list (map (\<lambda>i. rows ! i ! i) [0..<min (length rows) c])"

text \<open>\<^verbatim>\<open>data.reshape(r, c)\<close>\<close>

fun np_size :: "'a ndarray \<Rightarrow> nat" where
  "np_size (Vec v) = length v"
| "np_size (Mat c rows) = length rows * c"

fun ravel :: "'a ndarray \<Rightarrow> 'a list" where
  "ravel (Vec v) = v"
| "ravel (Mat c rows) = concat rows"

definition reshape :: "'a ndarray \<Rightarrow> nat \<Rightarrow> nat \<Rightarrow> error + 'a ndarray" where
  "reshape a r c =
     (if np_size a \<noteq> r * c then Inl (ValueError ''cannot reshape array'')
      else Inr (Mat c (map (\<lambda>i. take c (drop (i * c) (ravel a))) [0..<r])))"

subsection \<open>Integer square roots\<close>

text \<open>\<^verbatim>\<open>int(np.ceil(np.sqrt(m)))\<close> and \<^verbatim>\<open>int(np.sqrt(m))\<close>, computed on the naturals.\<close>

function sqrt_ceil_from :: "nat \<Rightarrow> nat \<Rightarrow> nat" where
  "sqrt_ceil_from m d = (if m \<le> d * d then d else sqrt_ceil_from m (Suc d))"
  by pat_completeness auto
termination
  by (relation "measure (\<lambda>(m, d). m - d * d)") auto

declare sqrt_ceil_from.simps [simp del]

definition sqrt_ceil :: "nat \<Rightarrow> nat" where
  "sqrt_ceil m = sqrt_ceil_from m 0"

definition sqrt_floor :: "nat \<Rightarrow> nat" where
  "sqrt_floor m = (let c = sqrt_ceil m in if c * c = m then c else c - 1)"

subsection \<open>scipy.spatial.distance.squareform\<close>

text \<open>The library function, in both directions. A vector of length \<open>d (d - 1) / 2\<close> becomes
  the symmetric \<open>d \<times> d\<close> matrix with a zero diagonal, its entries taken in the order of
  \<open>triu_indices d\<close>; the empty vector becomes the \<open>1 \<times> 1\<close> zero matrix. A square, symmetric
  matrix with a zero diagonal becomes the vector of its upper triangle.\<close>

definition to_squareform_from_vector :: "nat \<Rightarrow> 'a::zero list \<Rightarrow> 'a list list" where
  "to_squareform_from_vector d v =
     map (\<lambda>i. map (\<lambda>j.
        if i = j then 0
        else (case map_of (zip (triu_indices d) v) (min i j, max i j) of
                Some x \<Rightarrow> x | None \<Rightarrow> 0)) [0..<d]) [0..<d]"

fun scipy_squareform :: "'a::zero ndarray \<Rightarrow> error + 'a ndarray" where
  "scipy_squareform (Vec v) =
     (if length v = 0 then Inr (Mat 1 [[0]])
      else let d = sqrt_ceil (length v * 2) in
        if d * (d - 1) \<noteq> length v * 2
        then Inl (ValueError ''Incompatible vector size. It must be a binomial coefficient n choose 2 for some integer n >= 2.'')
        else Inr (Mat d (to_squareform_from_vector d v)))"
| "scipy_squareform (Mat c rows) =
     (if length rows \<noteq> c then Inl (ValueError ''The matrix argument must be square.'')
      else if \<not> list_all (\<lambda>i. list_all (\<lambda>j. rows ! i ! j = rows ! j ! i) [0..<c]) [0..<c]
        then Inl (ValueError ''Distance matrix must be symmetric.'')
      else if \<not> list_all (\<lambda>i. rows ! i ! i = 0) [0..<c]
        then Inl (ValueError ''Distance matrix diagonal must be zero.'')
      else if c \<le> 1 then Inr (Vec [])
      else Inr (Vec (map (\<lambda>(i, j). rows ! i ! j) (triu_indices c))))"

subsection \<open>pandas tables and labels\<close>

text \<open>\<^verbatim>\<open>Y\<close> is a pandas DataFrame, a list of rows of cells. \<^verbatim>\<open>iloc\<close> with an integer takes
  a row out of a frame as a Series, and a cell out of a Series.\<close>

datatype 'c pandas = DataFrame "'c list list" | Series "'c list" | Scalar 'c

fun pd_empty :: "'c pandas \<Rightarrow> error + bool" where
  "pd_empty (DataFrame rows) = Inr (case rows of [] \<Rightarrow> True | r # _ \<Rightarrow> r = [])"
| "pd_empty (Series cs) = Inr (cs = [])"
| "pd_empty (Scalar c) = Inl (AttributeError ''object has no attribute empty'')"

definition py_index :: "'x list \<Rightarrow> int \<Rightarrow> 'x option" where
  "py_index xs i =
     (let k = int (length xs); j = (if i < 0 then i + k else i)
      in if 0 \<le> j \<and> j < k then Some (xs ! nat j) else None)"

fun pd_iloc :: "'c pandas \<Rightarrow> int \<Rightarrow> error + 'c pandas" where
  "pd_iloc (DataFrame rows) i =
     (case py_index rows i of
        Some r \<Rightarrow> Inr (Series r)
      | None \<Rightarrow> Inl (IndexError ''single positional indexer is out-of-bounds''))"
| "pd_iloc (Series cs) i =
     (case py_index cs i of
        Some c \<Rightarrow> Inr (Scalar c)
      | None \<Rightarrow> Inl (IndexError ''single positional indexer is out-of-bounds''))"
| "pd_iloc (Scalar c) i = Inl (AttributeError ''object has no attribute iloc'')"

text \<open>\<^verbatim>\<open>labels\<close> is a list of node labels, or a list of such lists, one per matrix.\<close>

datatype labels = Labels "string list" | LabelLists "string list list"

fun labels_len :: "labels \<Rightarrow> nat" where
  "labels_len (Labels ls) = length ls"
| "labels_len (LabelLists lss) = length lss"

fun labels_item_lens :: "labels \<Rightarrow> nat list" where
  "labels_item_lens (Labels ls) = map length ls"
| "labels_item_lens (LabelLists lss) = map length lss"

fun labels_times :: "labels \<Rightarrow> nat \<Rightarrow> labels" where
  "labels_times (Labels ls) k = Labels (concat (replicate k ls))"
| "labels_times (LabelLists lss) k = LabelLists (concat (replicate k lss))"

subsection \<open>The class Adjacency\<close>

record ('a, 'c) adjacency =
  data :: "'a ndarray"
  matrix_type :: "string option"
  issymmetric :: flag
  is_single_matrix :: flag
  Y :: "'c pandas"
  labels :: "labels option"

text \<open>A comprehension or a \<^verbatim>\<open>for\<close> loop that builds a list stops at the first exception.\<close>

fun collect :: "('x \<Rightarrow> error + 'y) \<Rightarrow> 'x list \<Rightarrow> error + 'y list" where
  "collect f [] = Inr []"
| "collect f (x # xs) =
     (case f x of
        Inl e \<Rightarrow> Inl e
      | Inr y \<Rightarrow> (case collect f xs of Inl e \<Rightarrow> Inl e | Inr ys \<Rightarrow> Inr (y # ys)))"

text \<open>\<^verbatim>\<open>__len__\<close>\<close>

definition len :: "('a, 'c) adjacency \<Rightarrow> nat" where
  "len a = (if truthy (is_single_matrix a) then 1 else shape0 (data a))"

text \<open>\<^verbatim>\<open>shape\<close>\<close>

definition shape :: "('a, 'c) adjacency \<Rightarrow> nat list" where
  "shape a = np_shape (data a)"

text \<open>\<^verbatim>\<open>__getitem__\<close> with an integer index: \<^verbatim>\<open>self.data[index, :]\<close> needs a stored array of
  two dimensions, and a negative index counts from the end. Slices are not modelled.\<close>

definition getitem :: "('a, 'c) adjacency \<Rightarrow> int \<Rightarrow> error + ('a, 'c) adjacency" where
  "getitem a index =
     (case data a of
        Vec v \<Rightarrow> Inl (IndexError ''too many indices for array'')
      | Mat c rows \<Rightarrow>
          (case py_index rows index of
             None \<Rightarrow> Inl (IndexError ''index is out of bounds'')
           | Some r \<Rightarrow>
               (case pd_empty (Y a) of
                  Inl e \<Rightarrow> Inl e
                | Inr True \<Rightarrow> Inr (a\<lparr>data := Vec r, is_single_matrix := Flag True\<rparr>)
                | Inr False \<Rightarrow>
                    (case pd_iloc (Y a) index of
                       Inl e \<Rightarrow> Inl e
                     | Inr y \<Rightarrow> Inr (a\<lparr>data := Vec r, is_single_matrix := Flag True, Y := y\<rparr>)))))"

text \<open>\<^verbatim>\<open>__iter__\<close>: the generator yields \<^verbatim>\<open>self[x]\<close> for \<^verbatim>\<open>x\<close> in \<^verbatim>\<open>range(len(self))\<close>; the
  model is the list of what it yields, or the exception that ends it.\<close>

definition iter :: "('a, 'c) adjacency \<Rightarrow> error + ('a, 'c) adjacency list" where
  "iter a = collect (getitem a) (map int [0..<len a])"

text \<open>\<^verbatim>\<open>squareform\<close>: one matrix for a single instance, a list of matrices for a stack.\<close>

datatype 'a sqform = Square "'a ndarray" | Squares "'a ndarray list"

definition reshape_square :: "'a ndarray \<Rightarrow> error + 'a ndarray" where
  "reshape_square d = reshape d (sqrt_floor (shape0 d)) (sqrt_floor (shape0 d))"

definition squareform :: "('a::zero, 'c) adjacency \<Rightarrow> error + 'a sqform" where
  "squareform a =
     (if truthy (issymmetric a) then
        (if truthy (is_single_matrix a) then
           (case scipy_squareform (data a) of Inl e \<Rightarrow> Inl e | Inr m \<Rightarrow> Inr (Square m))
         else
           (case collect (\<lambda>x. case getitem a x of
                                 Inl e \<Rightarrow> Inl e
                               | Inr xa \<Rightarrow> scipy_squareform (data xa))
                         (map int [0..<len a]) of
              Inl e \<Rightarrow> Inl e | Inr ms \<Rightarrow> Inr (Squares ms)))
      else
        (if truthy (is_single_matrix a) then
           (case reshape_square (data a) of Inl e \<Rightarrow> Inl e | Inr m \<Rightarrow> Inr (Square m))
         else
           (case collect (\<lambda>x. case getitem a x of
                                 Inl e \<Rightarrow> Inl e
                               | Inr xa \<Rightarrow> reshape_square (data xa))
                         (map int [0..<len a]) of
              Inl e \<Rightarrow> Inl e | Inr ms \<Rightarrow> Inr (Squares ms))))"

text \<open>\<^verbatim>\<open>square_shape\<close>: the empty instance answers \<^verbatim>\<open>np.array([])\<close>, here the empty list.\<close>

fun sqform_shape :: "'a sqform \<Rightarrow> error + nat list" where
  "sqform_shape (Square m) = Inr (np_shape m)"
| "sqform_shape (Squares ms) = Inl (AttributeError ''list object has no attribute shape'')"

definition square_shape :: "('a::zero, 'c) adjacency \<Rightarrow> error + nat list" where
  "square_shape a =
     (if matrix_type a = Some ''empty'' then Inr []
      else if truthy (is_single_matrix a) then
        (case squareform a of Inl e \<Rightarrow> Inl e | Inr s \<Rightarrow> sqform_shape s)
      else
        (case getitem a 0 of
           Inl e \<Rightarrow> Inl e
         | Inr x \<Rightarrow> (case squareform x of Inl e \<Rightarrow> Inl e | Inr s \<Rightarrow> sqform_shape s)))"

text \<open>\<^verbatim>\<open>self.square_shape()[0]\<close>\<close>

definition square_shape0 :: "('a::zero, 'c) adjacency \<Rightarrow> error + nat" where
  "square_shape0 a =
     (case square_shape a of
        Inl e \<Rightarrow> Inl e
      | Inr [] \<Rightarrow> Inl (IndexError ''index 0 is out of bounds'')
      | Inr (n # _) \<Rightarrow> Inr n)"

text \<open>\<^verbatim>\<open>isempty\<close>\<close>

definition isempty :: "('a, 'c) adjacency \<Rightarrow> bool" where
  "isempty a = (matrix_type a = Some ''empty'')"

subsection \<open>Construction\<close>

text \<open>What \<^verbatim>\<open>_import_single_data\<close> returns: the tuple
  \<^verbatim>\<open>(data, issymmetric, matrix_type, is_single_matrix)\<close>.\<close>

record 'a imported =
  i_data :: "'a ndarray"
  i_issymmetric :: bool
  i_matrix_type :: "string option"
  i_is_single_matrix :: bool

text \<open>\<^verbatim>\<open>try: data = squareform(x) except ValueError: print(...)\<close>: on a ValueError the
  variable keeps its value.\<close>

definition squareform_or_keep :: "'a::zero ndarray \<Rightarrow> 'a ndarray \<Rightarrow> error + 'a ndarray" where
  "squareform_or_keep x keep =
     (case scipy_squareform x of
        Inr m \<Rightarrow> Inr m
      | Inl (ValueError msg) \<Rightarrow> Inr keep
      | Inl e \<Rightarrow> Inl e)"

text \<open>The branch of \<^verbatim>\<open>_import_single_data\<close> for an explicit \<^verbatim>\<open>matrix_type\<close>. A string
  that is none of the six types leaves \<^verbatim>\<open>issymmetric\<close> unbound at the \<^verbatim>\<open>return\<close>.\<close>

definition import_typed :: "'a ndarray \<Rightarrow> string \<Rightarrow> error + 'a imported" where
  "import_typed d t =
     (if str_lower t = ''distance_flat'' then
        Inr \<lparr>i_data = d, i_issymmetric = True, i_matrix_type = Some ''distance'',
             i_is_single_matrix = (ndim d = 1)\<rparr>
      else if str_lower t = ''similarity_flat'' then
        Inr \<lparr>i_data = d, i_issymmetric = True, i_matrix_type = Some ''similarity'',
             i_is_single_matrix = (ndim d = 1)\<rparr>
      else if str_lower t = ''directed_flat'' then
        Inr \<lparr>i_data = flatten d, i_issymmetric = False, i_matrix_type = Some ''directed'',
             i_is_single_matrix = (ndim (flatten d) = 1)\<rparr>
      else if str_lower t \<in> set [''distance'', ''similarity'', ''directed''] then
        (case d of
           Vec v \<Rightarrow> Inl (IndexError ''tuple index out of range'')
         | Mat c rows \<Rightarrow>
             if length rows \<noteq> c then Inl (ValueError ''Data matrix must be square'')
             else if str_lower t \<in> set [''distance'', ''similarity''] then
               (case index_pairs d (triu_indices (shape0 d)) of
                  Inl e \<Rightarrow> Inl e
                | Inr up \<Rightarrow>
                    Inr \<lparr>i_data = Vec up, i_issymmetric = True, i_matrix_type = Some (str_lower t),
                         i_is_single_matrix = True\<rparr>)
             else
               Inr \<lparr>i_data = flatten d, i_issymmetric = False, i_matrix_type = Some (str_lower t),
                    i_is_single_matrix = True\<rparr>)
      else Inl (UnboundLocalError ''local variable issymmetric referenced before assignment''))"

text \<open>The branch for \<^verbatim>\<open>matrix_type=None\<close>. First the square form to test and whether the
  input is a single matrix: a vector is unflattened, a square matrix is taken as it is, a
  rectangular one is a stack whose first row is unflattened.\<close>

definition to_square :: "'a::zero ndarray \<Rightarrow> error + ('a ndarray \<times> bool)" where
  "to_square d =
     (case d of
        Vec v \<Rightarrow>
          (case squareform_or_keep d d of Inl e \<Rightarrow> Inl e | Inr sq \<Rightarrow> Inr (sq, True))
      | Mat c rows \<Rightarrow>
          if length rows = c then Inr (d, True)
          else
            (case rows of
               [] \<Rightarrow> Inl (IndexError ''index 0 is out of bounds for axis 0 with size 0'')
             | r # _ \<Rightarrow>
                 (case squareform_or_keep (Vec r) d of
                    Inl e \<Rightarrow> Inl e
                  | Inr sq \<Rightarrow> Inr (sq, False))))"

text \<open>Then the symmetry test, the type read off the sum of the diagonal, and the
  flattening. A symmetric matrix whose diagonal sums neither to 0 nor to its side keeps the
  \<^verbatim>\<open>matrix_type\<close> it came with, the parameter's value \<^verbatim>\<open>None\<close>.\<close>

definition import_inferred :: "'a::semiring_1 ndarray \<Rightarrow> error + 'a imported" where
  "import_inferred d =
     (case to_square d of
        Inl e \<Rightarrow> Inl e
      | Inr (sq, single) \<Rightarrow>
          (case index_pairs sq (triu_indices (shape0 sq)) of
             Inl e \<Rightarrow> Inl e
           | Inr up \<Rightarrow>
               (case index_pairs (np_T sq) (triu_indices (shape0 sq)) of
                  Inl e \<Rightarrow> Inl e
                | Inr lo \<Rightarrow>
                    if up = lo then
                      Inr \<lparr>i_data = (if single then Vec up else d),
                           i_issymmetric = True,
                           i_matrix_type =
                             (if sum_diag sq = 0 then Some ''distance''
                              else if sum_diag sq = of_nat (shape0 sq) then Some ''similarity''
                              else None),
                           i_is_single_matrix = single\<rparr>
                    else
                      Inr \<lparr>i_data = (if single then flatten sq else d),
                           i_issymmetric = False,
                           i_matrix_type = Some ''directed'',
                           i_is_single_matrix = single\<rparr>)))"

text \<open>\<^verbatim>\<open>_import_single_data\<close> for an array (the reading of a file path is not modelled).\<close>

definition import_single_data :: "'a::semiring_1 ndarray \<Rightarrow> string option \<Rightarrow> error + 'a imported" where
  "import_single_data d mt =
     (case mt of Some t \<Rightarrow> import_typed d t | None \<Rightarrow> import_inferred d)"

text \<open>Modelled from the spec: \<^verbatim>\<open>nltools.utils.all_same\<close> is imported by the source and its
  body is not part of it. The spec says of the list constructor that every element must
  resolve to the same \<^verbatim>\<open>issymmetric\<close> and \<^verbatim>\<open>matrix_type\<close>.\<close>

definition all_same :: "'x list \<Rightarrow> bool" where
  "all_same items = list_all (\<lambda>x. x = hd items) items"

text \<open>\<^verbatim>\<open>np.array(d_all)\<close> for a list of vectors of one length is the matrix with these rows.\<close>

definition np_array_of :: "'a ndarray list \<Rightarrow> error + 'a ndarray" where
  "np_array_of ds =
     (case ds of
        [] \<Rightarrow> Inr (Vec [])
      | d # _ \<Rightarrow>
          if list_all (\<lambda>x. ndim x = 1 \<and> shape0 x = shape0 d) ds
          then Inr (Mat (shape0 d) (map ravel ds))
          else Inl (NotModelled ''array of arrays''))"

text \<open>The data a constructor call is given: \<^verbatim>\<open>None\<close>, one array, or a list of arrays. A
  list of Adjacency instances and file paths go through \<^verbatim>\<open>nltools.utils.concatenate\<close> and
  pandas and are not modelled.\<close>

datatype 'a init_data = NoData | Array "'a ndarray" | RawList "'a ndarray list"

definition valid_matrix_types :: "string list" where
  "valid_matrix_types =
     [''distance'', ''similarity'', ''directed'',
      ''distance_flat'', ''similarity_flat'', ''directed_flat'']"

definition init_fields ::
  "'a::semiring_1 init_data \<Rightarrow> string option \<Rightarrow>
   error + ('a ndarray \<times> flag \<times> string option \<times> flag)" where
  "init_fields d mt =
     (case d of
        NoData \<Rightarrow> Inr (Vec [], NaN, Some ''empty'', NaN)
      | RawList ds \<Rightarrow>
          (case ds of
             [] \<Rightarrow> Inl (IndexError ''list index out of range'')
           | _ # _ \<Rightarrow>
               (case collect (\<lambda>x. import_single_data x mt) ds of
                  Inl e \<Rightarrow> Inl e
                | Inr imps \<Rightarrow>
                    if \<not> all_same (map i_issymmetric imps) then
                      Inl (ValueError ''Not all matrices are of the same symmetric type.'')
                    else if \<not> all_same (map i_matrix_type imps) then
                      Inl (ValueError ''Not all matrices are of the same matrix type.'')
                    else
                      (case np_array_of (map i_data imps) of
                         Inl e \<Rightarrow> Inl e
                       | Inr arr \<Rightarrow>
                           Inr (arr, Flag (i_issymmetric (hd imps)), i_matrix_type (hd imps),
                                Flag False))))
      | Array x \<Rightarrow>
          (case import_single_data x mt of
             Inl e \<Rightarrow> Inl e
           | Inr imp \<Rightarrow>
               Inr (i_data imp, Flag (i_issymmetric imp), i_matrix_type imp,
                    Flag (i_is_single_matrix imp))))"

definition init_Y :: "'a ndarray \<Rightarrow> 'c pandas option \<Rightarrow> error + 'c pandas" where
  "init_Y dat y =
     (case y of
        None \<Rightarrow> Inr (DataFrame [])
      | Some (DataFrame rows) \<Rightarrow>
          if shape0 dat \<noteq> length rows
          then Inl (ValueError ''Y does not match the correct size of data'')
          else Inr (DataFrame rows)
      | Some _ \<Rightarrow> Inl (ValueError ''Make sure Y is a pandas data frame.''))"

definition init_labels :: "('a::zero, 'c) adjacency \<Rightarrow> labels option \<Rightarrow> error + labels option" where
  "init_labels self lbls =
     (case lbls of
        None \<Rightarrow> Inr None
      | Some l \<Rightarrow>
          if truthy (is_single_matrix self) then
            (case square_shape0 self of
               Inl e \<Rightarrow> Inl e
             | Inr n \<Rightarrow>
                 if labels_len l \<noteq> n
                 then Inl (ValueError ''Make sure the length of labels matches the shape of data.'')
                 else Inr (Some l))
          else if labels_len l \<noteq> len self then
            (case square_shape0 self of
               Inl e \<Rightarrow> Inl e
             | Inr n \<Rightarrow>
                 if labels_len l \<noteq> n
                 then Inl (ValueError ''Make sure length of labels either matches the number of Adjacency matrices or the size of a single matrix.'')
                 else Inr (Some (labels_times l (len self))))
          else
            (case square_shape0 self of
               Inl e \<Rightarrow> Inl e
             | Inr n \<Rightarrow>
                 if list_all (\<lambda>k. k \<noteq> n) (labels_item_lens l)
                 then Inl (ValueError ''All lists of labels must be same length as shape of data.'')
                 else Inr (Some l)))"

text \<open>\<^verbatim>\<open>Adjacency.__init__(data, Y, matrix_type, labels)\<close>\<close>

definition init ::
  "'a::semiring_1 init_data \<Rightarrow> 'c pandas option \<Rightarrow> string option \<Rightarrow> labels option \<Rightarrow>
   error + ('a, 'c) adjacency" where
  "init d y mt lbls =
     (if (case mt of None \<Rightarrow> False | Some t \<Rightarrow> str_lower t \<notin> set valid_matrix_types) then
        Inl (ValueError ''matrix_type must be None or one of distance, similarity, directed, distance_flat, similarity_flat, directed_flat'')
      else
        (case init_fields d mt of
           Inl e \<Rightarrow> Inl e
         | Inr (dat, symm, t, single) \<Rightarrow>
             (case init_Y dat y of
                Inl e \<Rightarrow> Inl e
              | Inr yy \<Rightarrow>
                  (case init_labels
                          \<lparr>data = dat, matrix_type = t, issymmetric = symm,
                           is_single_matrix = single, Y = yy, labels = None\<rparr> lbls of
                     Inl e \<Rightarrow> Inl e
                   | Inr l \<Rightarrow>
                       Inr \<lparr>data = dat, matrix_type = t, issymmetric = symm,
                            is_single_matrix = single, Y = yy, labels = l\<rparr>))))"

subsection \<open>float64\<close>

text \<open>A finite float64 is a rational number whose significand has at most 53 bits, and an
  operation on two of them gives the exact result rounded to the nearest float64, a tie
  going to the even significand (IEEE 754 binary64, the default rounding). \<open>ilog2 x\<close> is the
  exponent \<open>k\<close> with \<open>2\<^sup>k \<le> |x| < 2\<^sup>k\<^sup>+\<^sup>1\<close>; the spacing of the float64 around \<open>x\<close> is
  \<open>2\<^sup>k\<^sup>-\<^sup>5\<^sup>2\<close>, and \<open>2\<^sup>-\<^sup>1\<^sup>0\<^sup>7\<^sup>4\<close> at least (the subnormal numbers). Overflow to infinity and nan
  are not represented.\<close>

definition ilog2 :: "rat \<Rightarrow> int" where
  "ilog2 x =
     (let (p, q) = quotient_of \<bar>x\<bar>; k = bitlen p - bitlen q
      in if 2 powi k \<le> \<bar>x\<bar> then k else k - 1)"

definition round_half_even :: "rat \<Rightarrow> int" where
  "round_half_even y =
     (let m = \<lfloor>y\<rfloor>; r = y - of_int m
      in if r < 1 / 2 then m else if 1 / 2 < r then m + 1 else if even m then m else m + 1)"

definition round_f64 :: "rat \<Rightarrow> rat" where
  "round_f64 x =
     (if x = 0 then 0
      else let e = max (ilog2 x - 52) (- 1074)
           in of_int (round_half_even (x / 2 powi e)) * 2 powi e)"

text \<open>A rational is a float64 when rounding leaves it as it is.\<close>

definition is_f64 :: "rat \<Rightarrow> bool" where
  "is_f64 x = (round_f64 x = x)"

definition f64_add :: "rat \<Rightarrow> rat \<Rightarrow> rat" where
  "f64_add x y = round_f64 (x + y)"

definition f64_sub :: "rat \<Rightarrow> rat \<Rightarrow> rat" where
  "f64_sub x y = round_f64 (x - y)"

definition f64_mul :: "rat \<Rightarrow> rat \<Rightarrow> rat" where
  "f64_mul x y = round_f64 (x * y)"

text \<open>\<^verbatim>\<open>float(k)\<close> for a Python int.\<close>

definition f64_of_int :: "int \<Rightarrow> rat" where
  "f64_of_int k = round_f64 (of_int k)"

subsection \<open>Arithmetic operators\<close>

text \<open>A Python number is an \<^verbatim>\<open>int\<close> or a \<^verbatim>\<open>float\<close>; the right operand of an operator is
  a number, an Adjacency, or another object (a string, a list, a numpy array, \<^verbatim>\<open>None\<close>).\<close>

datatype 'a pynum = PyInt int | PyFloat 'a

fun num_val :: "'a::ring_1 pynum \<Rightarrow> 'a" where
  "num_val (PyInt k) = of_int k"
| "num_val (PyFloat x) = x"

datatype ('a, 'c) operand =
    Number "'a pynum"
  | Instance "('a, 'c) adjacency"
  | PyStr string
  | PyList "'a list"
  | PyArray "'a ndarray"
  | PyNone

fun map_array :: "('a \<Rightarrow> 'b) \<Rightarrow> 'a ndarray \<Rightarrow> 'b ndarray" where
  "map_array f (Vec v) = Vec (map f v)"
| "map_array f (Mat c rows) = Mat c (map (map f) rows)"

text \<open>An operator between two arrays of one shape works element by element. The
  operators below call it after they have compared the shapes, so numpy's broadcasting of
  different shapes is never reached.\<close>

fun zip_array :: "('a \<Rightarrow> 'a \<Rightarrow> 'a) \<Rightarrow> 'a ndarray \<Rightarrow> 'a ndarray \<Rightarrow> 'a ndarray" where
  "zip_array f (Vec u) (Vec v) = Vec (map2 f u v)"
| "zip_array f (Mat c rows) (Mat c' rows') = Mat c (map2 (map2 f) rows rows')"
| "zip_array f (Vec u) (Mat c rows) = Mat c (map (map2 f u) rows)"
| "zip_array f (Mat c rows) (Vec v) = Mat c (map (\<lambda>r. map2 f r v) rows)"

text \<open>The operator between a stored array and a Python number, or between two stored
  arrays, computes in the dtype of the array. The dtype's arithmetic is a parameter: how a
  Python \<^verbatim>\<open>int\<close> enters the dtype, and the operator on two elements.\<close>

fun to_elem :: "(int \<Rightarrow> 'a) \<Rightarrow> 'a pynum \<Rightarrow> 'a" where
  "to_elem conv (PyInt k) = conv k"
| "to_elem conv (PyFloat x) = x"

definition binop ::
  "(int \<Rightarrow> 'a) \<Rightarrow> ('a \<Rightarrow> 'a \<Rightarrow> 'a) \<Rightarrow> ('a, 'c) adjacency \<Rightarrow> ('a, 'c) operand \<Rightarrow>
   error + ('a, 'c) adjacency" where
  "binop conv f self y =
     (case y of
        Number k \<Rightarrow> Inr (self\<lparr>data := map_array (\<lambda>x. f x (to_elem conv k)) (data self)\<rparr>)
      | Instance b \<Rightarrow>
          if shape self \<noteq> shape b
          then Inl (ValueError ''Both Adjacency() instances need to be the same shape.'')
          else Inr (self\<lparr>data := zip_array f (data self) (data b)\<rparr>)
      | _ \<Rightarrow> Inr self)"

text \<open>\<^verbatim>\<open>__add__\<close>, \<^verbatim>\<open>__sub__\<close> and \<^verbatim>\<open>__mul__\<close> are one text with three operators. On an
  array of an exact dtype (numpy's integers, whose arithmetic is that of a ring, the
  wrap-around included) the operators are those of the ring.\<close>

definition add :: "('a::ring_1, 'c) adjacency \<Rightarrow> ('a, 'c) operand \<Rightarrow> error + ('a, 'c) adjacency" where
  "add self y = binop of_int (+) self y"

definition sub :: "('a::ring_1, 'c) adjacency \<Rightarrow> ('a, 'c) operand \<Rightarrow> error + ('a, 'c) adjacency" where
  "sub self y = binop of_int (-) self y"

definition mul :: "('a::ring_1, 'c) adjacency \<Rightarrow> ('a, 'c) operand \<Rightarrow> error + ('a, 'c) adjacency" where
  "mul self y = binop of_int (*) self y"

text \<open>On an array of dtype float64, the usual one, every elementwise result is rounded.\<close>

definition add_f64 :: "(rat, 'c) adjacency \<Rightarrow> (rat, 'c) operand \<Rightarrow> error + (rat, 'c) adjacency" where
  "add_f64 self y = binop f64_of_int f64_add self y"

definition sub_f64 :: "(rat, 'c) adjacency \<Rightarrow> (rat, 'c) operand \<Rightarrow> error + (rat, 'c) adjacency" where
  "sub_f64 self y = binop f64_of_int f64_sub self y"

definition mul_f64 :: "(rat, 'c) adjacency \<Rightarrow> (rat, 'c) operand \<Rightarrow> error + (rat, 'c) adjacency" where
  "mul_f64 self y = binop f64_of_int f64_mul self y"

subsection \<open>Thresholding\<close>

text \<open>A cutoff is \<^verbatim>\<open>None\<close>, a number, or a string. A string that ends in a percent sign
  is replaced by \<^verbatim>\<open>np.percentile(b.data, float(s[:-1]))\<close>, a parameter of the model.\<close>

datatype 'a cutoff = NoCutoff | Cut 'a | CutStr string

definition resolve_cutoff ::
  "('a ndarray \<Rightarrow> string \<Rightarrow> error + 'a) \<Rightarrow> 'a ndarray \<Rightarrow> 'a cutoff \<Rightarrow> error + 'a cutoff" where
  "resolve_cutoff percentile d c =
     (case c of
        CutStr s \<Rightarrow>
          if s = [] then Inl (IndexError ''string index out of range'')
          else if last s = CHR ''%'' then
            (case percentile d (butlast s) of Inl e \<Rightarrow> Inl e | Inr p \<Rightarrow> Inr (Cut p))
          else Inr (CutStr s)
      | _ \<Rightarrow> Inr c)"

text \<open>The truth value of a cutoff in \<^verbatim>\<open>if upper and lower\<close>: \<^verbatim>\<open>None\<close>, the number zero and
  the empty string are false.\<close>

fun cutoff_truthy :: "'a::zero cutoff \<Rightarrow> bool" where
  "cutoff_truthy NoCutoff = False"
| "cutoff_truthy (Cut x) = (x \<noteq> 0)"
| "cutoff_truthy (CutStr s) = (s \<noteq> [])"

text \<open>\<^verbatim>\<open>b.data[mask] = v\<close> with the mask of a comparison against a cutoff; comparing the
  array with a string raises.\<close>

fun mask_set :: "('a \<Rightarrow> 'a \<Rightarrow> bool) \<Rightarrow> 'a cutoff \<Rightarrow> 'a \<Rightarrow> 'a ndarray \<Rightarrow> error + 'a ndarray" where
  "mask_set p (Cut c) v d = Inr (map_array (\<lambda>x. if p x c then v else x) d)"
| "mask_set p _ v d = Inl (TypeError ''comparison of an array with a value that is not a number'')"

fun mask_set2 ::
  "'a::ord cutoff \<Rightarrow> 'a cutoff \<Rightarrow> 'a \<Rightarrow> 'a ndarray \<Rightarrow> error + 'a ndarray" where
  "mask_set2 (Cut u) (Cut l) v d = Inr (map_array (\<lambda>x. if x < u \<and> x > l then v else x) d)"
| "mask_set2 _ _ v d = Inl (TypeError ''comparison of an array with a value that is not a number'')"

definition threshold ::
  "('a ndarray \<Rightarrow> string \<Rightarrow> error + 'a) \<Rightarrow> ('a::{zero,one,ord}, 'c) adjacency \<Rightarrow>
   'a cutoff \<Rightarrow> 'a cutoff \<Rightarrow> bool \<Rightarrow> error + ('a, 'c) adjacency" where
  "threshold percentile self upper lower binarize =
     (case resolve_cutoff percentile (data self) upper of
        Inl e \<Rightarrow> Inl e
      | Inr u \<Rightarrow>
          (case resolve_cutoff percentile (data self) lower of
             Inl e \<Rightarrow> Inl e
           | Inr l \<Rightarrow>
               (case (if cutoff_truthy u \<and> cutoff_truthy l then mask_set2 u l 0 (data self)
                      else if cutoff_truthy u \<and> \<not> cutoff_truthy l
                        then mask_set (<) u 0 (data self)
                      else if cutoff_truthy l \<and> \<not> cutoff_truthy u
                        then mask_set (>) l 0 (data self)
                      else Inr (data self)) of
                  Inl e \<Rightarrow> Inl e
                | Inr d \<Rightarrow>
                    Inr (self\<lparr>data :=
                           (if binarize then map_array (\<lambda>x. if x \<noteq> 0 then 1 else x) d
                            else d)\<rparr>))))"

text \<open>The values of a stored array, for the statements about them.\<close>

definition stored :: "('a, 'c) adjacency \<Rightarrow> 'a list" where
  "stored a = ravel (data a)"

subsection \<open>t-test\<close>

text \<open>\<^verbatim>\<open>ttest\<close> refuses a single matrix and hands a stack to the statistics of
  \<^verbatim>\<open>nltools.stats\<close> and \<^verbatim>\<open>scipy.stats\<close>, a parameter of the model.\<close>

definition ttest ::
  "(('a, 'c) adjacency \<Rightarrow> bool \<Rightarrow> error + 'r) \<Rightarrow> ('a, 'c) adjacency \<Rightarrow> bool \<Rightarrow> error + 'r" where
  "ttest stats self permutation =
     (if truthy (is_single_matrix self)
      then Inl (ValueError ''t-test cannot be run on single matrices.'')
      else stats self permutation)"

subsection \<open>Conversion between distance and similarity\<close>

definition similarity_to_distance :: "('a::ring_1, 'c) adjacency \<Rightarrow> error + ('a, 'c) adjacency" where
  "similarity_to_distance self =
     (if matrix_type self = Some ''similarity'' then
        (case squareform self of
           Inl e \<Rightarrow> Inl e
         | Inr (Squares ms) \<Rightarrow> Inl (TypeError ''unsupported operand type(s) for -: int and list'')
         | Inr (Square m) \<Rightarrow>
             init (Array (map_array (\<lambda>x. 1 - x) m)) None (Some ''distance'') (labels self))
      else Inl (ValueError ''Matrix is not a similarity matrix.''))"

text \<open>\<^verbatim>\<open>np.std\<close> of all entries of an array, over the reals.\<close>

definition np_std :: "real list \<Rightarrow> real" where
  "np_std xs =
     (let n = real (length xs); mu = sum_list xs / n
      in sqrt (sum_list (map (\<lambda>x. (x - mu)\<^sup>2) xs) / n))"

text \<open>\<^verbatim>\<open>distance_to_similarity\<close>: \<^verbatim>\<open>np.exp(-beta*self.squareform()/self.squareform().std())\<close>.
  For a stack the square form is a Python list: a list times a float raises a TypeError,
  and with an int \<^verbatim>\<open>beta\<close> the missing attribute \<^verbatim>\<open>std\<close> of the list raises.\<close>

definition distance_to_similarity ::
  "(real, 'c) adjacency \<Rightarrow> real pynum \<Rightarrow> error + (real, 'c) adjacency" where
  "distance_to_similarity self beta =
     (if matrix_type self = Some ''distance'' then
        (case squareform self of
           Inl e \<Rightarrow> Inl e
         | Inr (Squares ms) \<Rightarrow>
             (case beta of
                PyInt k \<Rightarrow> Inl (AttributeError ''list object has no attribute std'')
              | PyFloat x \<Rightarrow> Inl (TypeError ''cannot multiply sequence by non-int of type float''))
         | Inr (Square m) \<Rightarrow>
             init (Array (map_array (\<lambda>x. exp (- num_val beta * x / np_std (ravel m))) m))
                  None (Some ''similarity'') (labels self))
      else Inl (ValueError ''Matrix is not a distance matrix.''))"

section \<open>Lemmas\<close>

subsection \<open>The upper triangle and the square roots\<close>

lemma set_triu_indices: "set (triu_indices n) = {(i, j). i < j \<and> j < n}"
  by (fastforce simp: triu_indices_def)

lemma triu_row_inj:
  assumes "x < n" "y < n" "map (Pair x) [Suc x..<n] = map (Pair y) [Suc y..<n]"
  shows "x = y"
proof -
  have "length (map (Pair x) [Suc x..<n]) = length (map (Pair y) [Suc y..<n])"
    using assms(3) by simp
  then show ?thesis using assms(1,2) by simp
qed

lemma distinct_triu_indices: "distinct (triu_indices n)"
  unfolding triu_indices_def
  by (rule distinct_concat) (auto simp: distinct_map inj_on_def dest: triu_row_inj)

lemma length_triu_indices_Suc: "length (triu_indices (Suc n)) = length (triu_indices n) + n"
proof -
  have split: "{(i, j). i < j \<and> j < Suc n} = {(i, j). i < j \<and> j < n} \<union> (\<lambda>i. (i, n)) ` {..<n}"
    by (auto simp: less_Suc_eq)
  have fin: "finite {(i, j). i < j \<and> j < n}"
    by (rule finite_subset [of _ "{..<n} \<times> {..<n}"]) auto
  have "length (triu_indices (Suc n)) = card {(i, j). i < j \<and> j < Suc n}"
    by (metis distinct_card distinct_triu_indices set_triu_indices)
  also have "\<dots> = card {(i, j). i < j \<and> j < n} + card ((\<lambda>i. (i, n)) ` {..<n})"
    unfolding split by (rule card_Un_disjoint) (use fin in auto)
  also have "card ((\<lambda>i. (i, n)) ` {..<n}) = n"
    by (simp add: card_image inj_on_def)
  also have "card {(i, j). i < j \<and> j < n} = length (triu_indices n)"
    by (metis distinct_card distinct_triu_indices set_triu_indices)
  finally show ?thesis .
qed

lemma length_triu_indices: "length (triu_indices n) * 2 = n * (n - 1)"
proof (induction n)
  case 0
  show ?case by (simp add: triu_indices_def)
next
  case (Suc n)
  show ?case
    using Suc by (cases n) (simp_all add: length_triu_indices_Suc algebra_simps)
qed

lemma sqrt_ceil_from_eq:
  "d \<le> n \<Longrightarrow> m \<le> n * n \<Longrightarrow> (\<And>k. d \<le> k \<Longrightarrow> k < n \<Longrightarrow> k * k < m) \<Longrightarrow> sqrt_ceil_from m d = n"
proof (induction "n - d" arbitrary: d)
  case 0
  then show ?case by (simp add: sqrt_ceil_from.simps)
next
  case (Suc x)
  then have "d < n" by simp
  then have "d * d < m" using Suc.prems by simp
  moreover have "sqrt_ceil_from m (Suc d) = n"
    using Suc by (intro Suc.hyps(1)) auto
  ultimately show ?case by (subst sqrt_ceil_from.simps) simp
qed

lemma sqrt_ceil_triangle:
  assumes "2 \<le> n"
  shows "sqrt_ceil (n * (n - 1)) = n"
  unfolding sqrt_ceil_def
proof (rule sqrt_ceil_from_eq)
  fix k assume "k < n"
  then have "k \<le> n - 1" by simp
  then have "k * k \<le> k * (n - 1)" by (rule mult_le_mono2)
  also have "\<dots> < n * (n - 1)" using \<open>k < n\<close> assms by simp
  finally show "k * k < n * (n - 1)" .
qed (simp_all add: mult_le_mono2)

lemma sqrt_ceil_square: "sqrt_ceil (n * n) = n"
  unfolding sqrt_ceil_def
proof (rule sqrt_ceil_from_eq)
  fix k assume "k < n"
  then show "k * k < n * n" by (simp add: mult_strict_mono)
qed simp_all

lemma sqrt_floor_square: "sqrt_floor (n * n) = n"
  by (simp add: sqrt_floor_def sqrt_ceil_square)

lemma list_all_triu_in_range: "list_all (\<lambda>(i, j). i < n \<and> j < n) (triu_indices n)"
  by (auto simp: list_all_iff set_triu_indices)

lemma index_pairs_triu:
  "length rows = n \<Longrightarrow>
   index_pairs (Mat n rows) (triu_indices n) = Inr (map (\<lambda>(i, j). rows ! i ! j) (triu_indices n))"
  using list_all_triu_in_range [of n] by simp

lemma index_pairs_T_triu:
  assumes "length rows = n"
  shows "index_pairs (np_T (Mat n rows)) (triu_indices n) =
         Inr (map (\<lambda>(i, j). rows ! j ! i) (triu_indices n))"
proof -
  have "map (\<lambda>(i, j). map (\<lambda>j. map (\<lambda>r. r ! j) rows) [0..<n] ! i ! j) (triu_indices n) =
        map (\<lambda>(i, j). rows ! j ! i) (triu_indices n)"
    using assms by (intro map_cong) (auto simp: set_triu_indices)
  then show ?thesis
    using list_all_triu_in_range [of n] assms by simp
qed

lemma map_lookup_zip:
  "distinct ps \<Longrightarrow> length ps = length v \<Longrightarrow>
   map (\<lambda>p. case map_of (zip ps v) p of Some x \<Rightarrow> x | None \<Rightarrow> z) ps = v"
proof (induction ps v rule: list_induct2')
  case (4 p ps x v)
  then have "map (\<lambda>q. case map_of (zip (p # ps) (x # v)) q of Some y \<Rightarrow> y | None \<Rightarrow> z) ps =
             map (\<lambda>q. case map_of (zip ps v) q of Some y \<Rightarrow> y | None \<Rightarrow> z) ps"
    by (intro map_cong) auto
  with 4 show ?case by simp
qed simp_all

lemma to_squareform_nth:
  "i < d \<Longrightarrow> j < d \<Longrightarrow>
   to_squareform_from_vector d v ! i ! j =
     (if i = j then 0
      else (case map_of (zip (triu_indices d) v) (min i j, max i j) of
              Some x \<Rightarrow> x | None \<Rightarrow> 0))"
  by (simp add: to_squareform_from_vector_def)

lemma length_to_squareform: "length (to_squareform_from_vector d v) = d"
  by (simp add: to_squareform_from_vector_def)

lemma wf_to_squareform: "wf_ndarray (Mat d (to_squareform_from_vector d v))"
  by (simp add: to_squareform_from_vector_def list_all_iff)

lemma triu_of_to_squareform:
  assumes "length v = length (triu_indices d)"
  shows "map (\<lambda>(i, j). to_squareform_from_vector d v ! i ! j) (triu_indices d) = v"
proof -
  have "map (\<lambda>(i, j). to_squareform_from_vector d v ! i ! j) (triu_indices d) =
        map (\<lambda>p. case map_of (zip (triu_indices d) v) p of Some x \<Rightarrow> x | None \<Rightarrow> 0)
          (triu_indices d)"
    by (intro map_cong) (auto simp: set_triu_indices to_squareform_nth)
  also have "\<dots> = v"
    using assms by (intro map_lookup_zip distinct_triu_indices) simp
  finally show ?thesis .
qed

lemma to_squareform_of_triu:
  assumes sym: "\<And>i j. i < n \<Longrightarrow> j < n \<Longrightarrow> rows ! i ! j = rows ! j ! i"
  shows "to_squareform_from_vector n (map (\<lambda>(i, j). rows ! i ! j) (triu_indices n)) =
         map (\<lambda>i. map (\<lambda>j. if i = j then 0 else rows ! i ! j) [0..<n]) [0..<n]"
proof -
  have look: "(case map_of (zip (triu_indices n) (map (\<lambda>(i, j). rows ! i ! j) (triu_indices n)))
                 (min i j, max i j) of Some x \<Rightarrow> x | None \<Rightarrow> 0) = rows ! i ! j"
    if "i < n" "j < n" "i \<noteq> j" for i j
  proof -
    have "(min i j, max i j) \<in> set (triu_indices n)"
      using that by (auto simp: set_triu_indices)
    then have "map_of (zip (triu_indices n) (map (\<lambda>(i, j). rows ! i ! j) (triu_indices n)))
                 (min i j, max i j) = Some (rows ! min i j ! max i j)"
      by (simp add: map_of_zip_map)
    moreover have "rows ! min i j ! max i j = rows ! i ! j"
      using that sym [of j i] by (cases "i < j") (simp_all add: min_def max_def)
    ultimately show ?thesis by simp
  qed
  show ?thesis
    unfolding to_squareform_from_vector_def
    by (intro map_cong refl) (auto simp: look)
qed

lemma reshape_rows:
  assumes "list_all (\<lambda>r. length r = c) rows" "i < length rows"
  shows "take c (drop (i * c) (concat rows)) = rows ! i"
  using assms
proof (induction rows arbitrary: i)
  case Nil
  then show ?case by simp
next
  case (Cons r rows)
  show ?case
  proof (cases i)
    case 0
    with Cons.prems show ?thesis by simp
  next
    case (Suc k)
    with Cons show ?thesis by simp
  qed
qed

lemma length_concat_rows:
  "list_all (\<lambda>r. length r = c) rows \<Longrightarrow> length (concat rows) = length rows * c"
  by (induction rows) simp_all

lemma reshape_square_flatten:
  assumes "length rows = n" "list_all (\<lambda>r. length r = n) rows"
  shows "reshape_square (Vec (concat rows)) = Inr (Mat n rows)"
proof -
  have len: "length (concat rows) = n * n"
    using assms length_concat_rows [of n rows] by simp
  have "map (\<lambda>i. take n (drop (i * n) (concat rows))) [0..<n] = rows"
    using assms by (intro nth_equalityI) (simp_all add: reshape_rows)
  then show ?thesis
    by (simp add: reshape_square_def reshape_def len sqrt_floor_square)
qed

lemma import_inferred_square:
  assumes "length rows = n"
  shows "import_inferred (Mat n rows) =
     (if map (\<lambda>(i, j). rows ! i ! j) (triu_indices n) = map (\<lambda>(i, j). rows ! j ! i) (triu_indices n)
      then Inr \<lparr>i_data = Vec (map (\<lambda>(i, j). rows ! i ! j) (triu_indices n)),
                i_issymmetric = True,
                i_matrix_type =
                  (if sum_diag (Mat n rows) = 0 then Some ''distance''
                   else if sum_diag (Mat n rows) = of_nat n then Some ''similarity''
                   else None),
                i_is_single_matrix = True\<rparr>
      else Inr \<lparr>i_data = Vec (concat rows), i_issymmetric = False,
                i_matrix_type = Some ''directed'', i_is_single_matrix = True\<rparr>)"
proof -
  have sq: "to_square (Mat n rows) = Inr (Mat n rows, True)"
    using assms by (simp add: to_square_def)
  show ?thesis
    unfolding import_inferred_def sq
    using assms index_pairs_triu [OF assms] index_pairs_T_triu [OF assms]
    by (simp del: index_pairs.simps np_T.simps)
qed

lemma triu_symmetric_iff:
  "map (\<lambda>(i, j). rows ! i ! j) (triu_indices n) = map (\<lambda>(i, j). rows ! j ! i) (triu_indices n)
   \<longleftrightarrow> (\<forall>i j. i < j \<and> j < n \<longrightarrow> rows ! i ! j = rows ! j ! i)"
  by (auto simp: set_triu_indices)

lemma transpose_symmetric_iff:
  assumes "length rows = n" "list_all (\<lambda>r. length r = n) rows"
  shows "np_T (Mat n rows) = Mat n rows \<longleftrightarrow> (\<forall>i j. i < j \<and> j < n \<longrightarrow> rows ! i ! j = rows ! j ! i)"
proof
  assume t: "np_T (Mat n rows) = Mat n rows"
  show "\<forall>i j. i < j \<and> j < n \<longrightarrow> rows ! i ! j = rows ! j ! i"
  proof (intro allI impI)
    fix i j assume ij: "i < j \<and> j < n"
    from t have "map (\<lambda>j. map (\<lambda>r. r ! j) rows) [0..<n] ! j ! i = rows ! j ! i"
      using assms by simp
    then show "rows ! i ! j = rows ! j ! i"
      using ij assms by simp
  qed
next
  assume s: "\<forall>i j. i < j \<and> j < n \<longrightarrow> rows ! i ! j = rows ! j ! i"
  have eq: "rows ! i ! j = rows ! j ! i" if "i < n" "j < n" for i j
    using s that by (cases i j rule: linorder_cases) auto
  have "map (\<lambda>j. map (\<lambda>r. r ! j) rows) [0..<n] = rows"
  proof (rule nth_equalityI)
    show "length (map (\<lambda>j. map (\<lambda>r. r ! j) rows) [0..<n]) = length rows"
      using assms by simp
  next
    fix i assume "i < length (map (\<lambda>j. map (\<lambda>r. r ! j) rows) [0..<n])"
    then have i: "i < n" by simp
    have li: "length (rows ! i) = n"
      using assms i by (simp add: list_all_length)
    have "map (\<lambda>r. r ! i) rows = rows ! i"
      by (rule nth_equalityI) (use assms i li eq in simp_all)
    then show "map (\<lambda>j. map (\<lambda>r. r ! j) rows) [0..<n] ! i = rows ! i"
      using i by simp
  qed
  then show "np_T (Mat n rows) = Mat n rows"
    using assms by simp
qed

lemma init_inferred:
  "init (Array x) None None None =
     (case import_inferred x of
        Inl e \<Rightarrow> Inl e
      | Inr imp \<Rightarrow>
          Inr \<lparr>data = i_data imp, matrix_type = i_matrix_type imp,
               issymmetric = Flag (i_issymmetric imp),
               is_single_matrix = Flag (i_is_single_matrix imp),
               Y = DataFrame [], labels = None\<rparr>)"
  by (simp add: init_def init_fields_def import_single_data_def init_Y_def init_labels_def
      split: sum.splits)

lemma scipy_squareform_triu:
  assumes "0 < n" "length v = length (triu_indices n)"
  shows "scipy_squareform (Vec v) = Inr (Mat n (to_squareform_from_vector n v))"
proof (cases "n = 1")
  case True
  then have "v = []" using assms length_triu_indices [of n] by simp
  then show ?thesis
    using True by (simp add: to_squareform_from_vector_def)
next
  case False
  then have n2: "2 \<le> n" using assms by simp
  have len: "length v * 2 = n * (n - 1)"
    using assms length_triu_indices [of n] by simp
  have "n * (n - 1) \<noteq> 0" using n2 by simp
  then have "length v \<noteq> 0" using len by (metis mult_zero_left)
  then show ?thesis
    using len sqrt_ceil_triangle [OF n2] by simp
qed

lemma init_square_symmetric:
  fixes rows :: "'a::semiring_1 list list"
  assumes "length rows = n" "list_all (\<lambda>r. length r = n) rows" "np_T (Mat n rows) = Mat n rows"
  shows "init (Array (Mat n rows)) None None None =
         Inr (\<lparr>data = Vec (map (\<lambda>(i, j). rows ! i ! j) (triu_indices n)),
               matrix_type =
                 (if sum_diag (Mat n rows) = 0 then Some ''distance''
                  else if sum_diag (Mat n rows) = of_nat n then Some ''similarity''
                  else None),
               issymmetric = Flag True, is_single_matrix = Flag True,
               Y = DataFrame [], labels = None\<rparr> :: ('a, 'c) adjacency)"
proof -
  have "map (\<lambda>(i, j). rows ! i ! j) (triu_indices n) = map (\<lambda>(i, j). rows ! j ! i) (triu_indices n)"
    using assms transpose_symmetric_iff [of rows n] triu_symmetric_iff [of rows n] by blast
  then show ?thesis
    by (simp add: init_inferred import_inferred_square [OF assms(1)] del: sum_diag.simps)
qed

lemma init_square_directed:
  fixes rows :: "'a::semiring_1 list list"
  assumes "length rows = n" "list_all (\<lambda>r. length r = n) rows" "np_T (Mat n rows) \<noteq> Mat n rows"
  shows "init (Array (Mat n rows)) None None None =
         Inr (\<lparr>data = Vec (concat rows), matrix_type = Some ''directed'',
               issymmetric = Flag False, is_single_matrix = Flag True,
               Y = DataFrame [], labels = None\<rparr> :: ('a, 'c) adjacency)"
proof -
  have "map (\<lambda>(i, j). rows ! i ! j) (triu_indices n) \<noteq> map (\<lambda>(i, j). rows ! j ! i) (triu_indices n)"
    using assms transpose_symmetric_iff [of rows n] triu_symmetric_iff [of rows n] by blast
  then show ?thesis
    by (simp add: init_inferred import_inferred_square [OF assms(1)] del: sum_diag.simps)
qed

lemma squareform_single_symmetric:
  assumes "0 < n" "length v = length (triu_indices n)"
    "issymmetric a = Flag True" "is_single_matrix a = Flag True" "data a = Vec v"
  shows "squareform a = Inr (Square (Mat n (to_squareform_from_vector n v)))"
  using assms scipy_squareform_triu [OF assms(1,2)]
  by (simp add: squareform_def del: scipy_squareform.simps)

lemma triu_indices_3: "triu_indices 3 = [(0, 1), (0, 2), (1, 2)]"
  by (simp add: triu_indices_def upt_rec)

lemma triu_indices_2: "triu_indices 2 = [(0, 1)]"
  by (simp add: triu_indices_def upt_rec)

lemma square_shape_single_symmetric:
  assumes "0 < n" "length v = length (triu_indices n)"
    "issymmetric a = Flag True" "is_single_matrix a = Flag True" "data a = Vec v"
    "matrix_type a \<noteq> Some ''empty''"
  shows "square_shape a = Inr [n, n]"
  using assms squareform_single_symmetric [OF assms(1-5)]
  by (simp add: square_shape_def length_to_squareform)

subsection \<open>Lists of matrices\<close>

lemma collect_Inr:
  "(\<And>x. x \<in> set xs \<Longrightarrow> f x = Inr (g x)) \<Longrightarrow> collect f xs = Inr (map g xs)"
  by (induction xs) simp_all

lemma collect_length: "collect f xs = Inr ys \<Longrightarrow> length ys = length xs"
  by (induction xs arbitrary: ys) (auto split: sum.splits)

lemma all_same_iff: "all_same xs \<longleftrightarrow> (\<forall>x\<in>set xs. x = hd xs)"
  by (simp add: all_same_def list_all_iff)

lemma all_same_const: "(\<And>x. x \<in> set xs \<Longrightarrow> f x = c) \<Longrightarrow> all_same (map f xs)"
  by (cases xs) (auto simp: all_same_iff)

lemma not_all_same:
  assumes "x \<in> set xs" "y \<in> set xs" "f x \<noteq> f y"
  shows "\<not> all_same (map f xs)"
proof
  assume "all_same (map f xs)"
  then have "\<forall>z\<in>set xs. f z = hd (map f xs)"
    by (auto simp: all_same_iff)
  then show False
    using assms by metis
qed

lemma import_inferred_square_data:
  fixes rows :: "'a::semiring_1 list list"
  assumes "length rows = n" "import_single_data (Mat n rows) None = Inr imp"
  shows "\<exists>v. i_data imp = Vec v \<and>
             length v = (if i_issymmetric imp then length (triu_indices n) else length (concat rows))"
  using assms(2)
  by (auto simp: import_single_data_def import_inferred_square [OF assms(1)]
      simp del: sum_diag.simps split: if_splits)

subsection \<open>Elementwise arithmetic\<close>

lemma map_array_ident: "map_array (\<lambda>x. x) d = d"
  by (cases d) (simp_all add: map_idI)

lemma map2_add_sub:
  fixes u v :: "'a::ab_group_add list"
  shows "length u = length v \<Longrightarrow> map2 (-) (map2 (+) u v) v = u"
  by (induction u v rule: list_induct2) simp_all

lemma map2_rows_add_sub:
  fixes rows rows' :: "'a::ab_group_add list list"
  assumes "length rows = length rows'"
    "list_all (\<lambda>r. length r = c) rows" "list_all (\<lambda>r. length r = c) rows'"
  shows "map2 (map2 (-)) (map2 (map2 (+)) rows rows') rows' = rows"
  using assms by (induction rows rows' rule: list_induct2) (simp_all add: map2_add_sub)

lemma np_shape_zip_array:
  "np_shape d = np_shape e \<Longrightarrow> np_shape (zip_array f d e) = np_shape d"
  by (cases d; cases e) simp_all

lemma zip_array_add_sub:
  fixes d e :: "'a::ab_group_add ndarray"
  assumes "np_shape d = np_shape e" "wf_ndarray d" "wf_ndarray e"
  shows "zip_array (-) (zip_array (+) d e) e = d"
  using assms by (cases d; cases e) (simp_all add: map2_add_sub map2_rows_add_sub)

lemma binop_metadata: "binop conv f A y = Inr r \<Longrightarrow> r\<lparr>data := data A\<rparr> = A"
  by (cases y) (auto simp: binop_def split: if_splits)

lemma map_array_fixed: "list_all (\<lambda>x. f x = x) (ravel d) \<Longrightarrow> map_array f d = d"
  by (cases d) (auto simp: list_all_iff intro!: map_idI)

subsection \<open>Rounding to float64\<close>

lemma round_half_even_nearest:
  assumes "\<bar>y - of_int m\<bar> < 1 / 2"
  shows "round_half_even y = m"
proof -
  have "\<lfloor>y\<rfloor> = m \<or> \<lfloor>y\<rfloor> = m - 1"
    using assms by linarith
  then show ?thesis
  proof
    assume f: "\<lfloor>y\<rfloor> = m"
    then have "y - of_int m < 1 / 2" using assms by linarith
    then show ?thesis by (simp add: round_half_even_def f Let_def)
  next
    assume f: "\<lfloor>y\<rfloor> = m - 1"
    have "- (1 / 2) < y - of_int m" using assms by linarith
    then have "1 / 2 < y - of_int (m - 1)" unfolding of_int_diff of_int_1 by linarith
    then show ?thesis using f by (simp add: round_half_even_def Let_def)
  qed
qed

lemma powi_bracket_unique:
  fixes x :: rat
  assumes "2 powi k \<le> x" "x < 2 powi (k + 1)" "2 powi r \<le> x" "x < 2 powi (r + 1)"
  shows "r = k"
proof -
  have "(2::rat) powi k < 2 powi (r + 1)" using assms by linarith
  then have "k < r + 1"
    by (metis linorder_not_less one_le_numeral power_int_increasing)
  moreover have "(2::rat) powi r < 2 powi (k + 1)" using assms by linarith
  then have "r < k + 1"
    by (metis linorder_not_less one_le_numeral power_int_increasing)
  ultimately show ?thesis by simp
qed

lemma ilog2_bracket:
  assumes "x \<noteq> 0"
  shows "2 powi ilog2 x \<le> \<bar>x\<bar> \<and> \<bar>x\<bar> < 2 powi (ilog2 x + 1)"
proof -
  obtain p q where pq: "quotient_of \<bar>x\<bar> = (p, q)" by (cases "quotient_of \<bar>x\<bar>")
  have q: "0 < q" using pq by (rule quotient_of_denom_pos)
  have x: "\<bar>x\<bar> = of_int p / of_int q" using pq by (rule quotient_of_div)
  have p: "0 < p"
  proof -
    have "0 < \<bar>x\<bar>" using assms by simp
    then have "0 < (of_int p :: rat) / of_int q" using x by simp
    then show ?thesis using q by (simp add: zero_less_divide_iff)
  qed
  define a where "a = bitlen p"
  define b where "b = bitlen q"
  have a: "2 ^ nat (a - 1) \<le> p" "p < 2 ^ nat a" and a1: "1 \<le> a"
    using bitlen_bounds [OF p] p by (auto simp: a_def bitlen_alt_def)
  have b: "2 ^ nat (b - 1) \<le> q" "q < 2 ^ nat b" and b1: "1 \<le> b"
    using bitlen_bounds [OF q] q by (auto simp: b_def bitlen_alt_def)
  have pa: "(of_int p :: rat) < 2 powi a"
  proof -
    have "(of_int p :: rat) < of_int (2 ^ nat a)" using a(2) by (simp only: of_int_less_iff)
    then show ?thesis using a1 by (simp add: power_int_def)
  qed
  have qb: "(2::rat) powi (b - 1) \<le> of_int q"
  proof -
    have "(of_int (2 ^ nat (b - 1)) :: rat) \<le> of_int q" using b(1) by (simp only: of_int_le_iff)
    then show ?thesis using b1 by (simp add: power_int_def)
  qed
  have upper: "\<bar>x\<bar> < 2 powi (a - b + 1)"
  proof -
    have "0 < (2::rat) powi (b - 1)" by simp
    have "\<bar>x\<bar> < 2 powi a / 2 powi (b - 1)"
      unfolding x
      by (rule frac_less) (use pa qb p \<open>0 < (2::rat) powi (b - 1)\<close> in simp_all)
    also have "\<dots> = 2 powi (a - (b - 1))"
      by (simp add: power_int_diff)
    finally show ?thesis by (simp add: algebra_simps)
  qed
  show ?thesis
  proof (cases "2 powi (a - b) \<le> \<bar>x\<bar>")
    case True
    then have "ilog2 x = a - b"
      by (simp add: ilog2_def pq a_def b_def)
    then show ?thesis using True upper by simp
  next
    case False
    then have i: "ilog2 x = a - b - 1"
      by (simp add: ilog2_def pq a_def b_def)
    have pa': "(2::rat) powi (a - 1) \<le> of_int p"
    proof -
      have "(of_int (2 ^ nat (a - 1)) :: rat) \<le> of_int p" using a(1) by (simp only: of_int_le_iff)
      then show ?thesis using a1 by (simp add: power_int_def)
    qed
    have qb': "(of_int q :: rat) < 2 powi b"
    proof -
      have "(of_int q :: rat) < of_int (2 ^ nat b)" using b(2) by (simp only: of_int_less_iff)
      then show ?thesis using b1 by (simp add: power_int_def)
    qed
    have "2 powi (a - 1) / 2 powi b \<le> \<bar>x\<bar>"
      unfolding x
      by (rule frac_le) (use pa' qb' q p in simp_all)
    moreover have "(2::rat) powi (a - 1) / 2 powi b = 2 powi (a - b - 1)"
      by (simp add: power_int_diff [symmetric] algebra_simps)
    ultimately show ?thesis using False i by simp
  qed
qed

lemma ilog2_eqI:
  assumes "x \<noteq> 0" "2 powi k \<le> \<bar>x\<bar>" "\<bar>x\<bar> < 2 powi (k + 1)"
  shows "ilog2 x = k"
  using powi_bracket_unique [OF assms(2,3)] ilog2_bracket [OF assms(1)] by blast

lemma round_f64_eqI:
  assumes "x \<noteq> 0" "2 powi k \<le> \<bar>x\<bar>" "\<bar>x\<bar> < 2 powi (k + 1)"
    "e = max (k - 52) (- 1074)" "\<bar>x / 2 powi e - of_int m\<bar> < 1 / 2"
  shows "round_f64 x = of_int m * 2 powi e"
  using assms(1,4) ilog2_eqI [OF assms(1-3)] round_half_even_nearest [OF assms(5)]
  by (simp add: round_f64_def Let_def)

lemma round_half_even_tie:
  assumes "y = of_int m + 1 / 2"
  shows "round_half_even y = (if even m then m else m + 1)"
proof -
  have "\<lfloor>y\<rfloor> = m"
    using assms by linarith
  then show ?thesis
    using assms by (simp add: round_half_even_def Let_def)
qed

lemma round_f64_exponent:
  assumes "x \<noteq> 0" "2 powi k \<le> \<bar>x\<bar>" "\<bar>x\<bar> < 2 powi (k + 1)" "e = max (k - 52) (- 1074)"
  shows "round_f64 x = of_int (round_half_even (x / 2 powi e)) * 2 powi e"
  using assms(1,4) ilog2_eqI [OF assms(1-3)]
  by (simp add: round_f64_def Let_def)

subsection \<open>Indexing, iteration and thresholding\<close>

lemma py_index_nat: "i < length xs \<Longrightarrow> py_index xs (int i) = Some (xs ! i)"
  by (simp add: py_index_def)

lemma getitem_stacked:
  assumes "data a = Mat c rows" "Y a = DataFrame []" "i < length rows"
  shows "getitem a (int i) = Inr (a\<lparr>data := Vec (rows ! i), is_single_matrix := Flag True\<rparr>)"
  using assms by (simp add: getitem_def py_index_nat)

lemma len_iter_stacked:
  assumes "is_single_matrix a = Flag False" "data a = Mat c rows" "Y a = DataFrame []"
  shows "len a = length rows"
    and "iter a = Inr (map (\<lambda>r. a\<lparr>data := Vec r, is_single_matrix := Flag True\<rparr>) rows)"
proof -
  show l: "len a = length rows"
    using assms by (simp add: len_def)
  have "collect (getitem a) (map int [0..<length rows]) =
        Inr (map (\<lambda>x. a\<lparr>data := Vec (rows ! nat x), is_single_matrix := Flag True\<rparr>)
               (map int [0..<length rows]))"
    by (rule collect_Inr) (use assms in \<open>auto simp: getitem_stacked\<close>)
  also have "map (\<lambda>x. a\<lparr>data := Vec (rows ! nat x), is_single_matrix := Flag True\<rparr>)
               (map int [0..<length rows]) =
             map (\<lambda>r. a\<lparr>data := Vec r, is_single_matrix := Flag True\<rparr>) rows"
    by (rule nth_equalityI) simp_all
  finally show "iter a = Inr (map (\<lambda>r. a\<lparr>data := Vec r, is_single_matrix := Flag True\<rparr>) rows)"
    by (simp add: iter_def l)
qed

lemma len_single: "is_single_matrix a = Flag True \<Longrightarrow> len a = 1"
  by (simp add: len_def)

lemma threshold_no_cutoff:
  "threshold pct a NoCutoff NoCutoff b =
     Inr (a\<lparr>data := (if b then map_array (\<lambda>x. if x \<noteq> 0 then 1 else x) (data a) else data a)\<rparr>)"
  by (simp add: threshold_def resolve_cutoff_def)

lemma set_ravel_map_array: "set (ravel (map_array f d)) = f ` set (ravel d)"
  by (cases d) auto

lemma threshold_binarize:
  assumes "threshold pct a NoCutoff NoCutoff True = Inr r"
  shows "set (stored r) \<subseteq> {0, 1}"
  using assms by (auto simp: threshold_no_cutoff stored_def set_ravel_map_array)

lemma threshold_upper_nonzero:
  assumes "x \<noteq> 0"
  shows "threshold pct a (Cut x) NoCutoff False =
           Inr (a\<lparr>data := map_array (\<lambda>v. if v < x then 0 else v) (data a)\<rparr>)"
    and "list_all (\<lambda>v. \<not> (v \<noteq> 0 \<and> v < x))
           (ravel (map_array (\<lambda>v. if v < x then 0 else v) (data a)))"
  using assms
  by (auto simp: threshold_def resolve_cutoff_def list_all_iff set_ravel_map_array)

subsection \<open>Construction with an explicit type\<close>

lemma str_lower_distance: "str_lower ''distance'' = ''distance''"
  by code_simp

lemma str_lower_similarity: "str_lower ''similarity'' = ''similarity''"
  by code_simp

lemma triu_map_rows:
  assumes "length rows = n" "list_all (\<lambda>r. length r = n) rows"
  shows "map (\<lambda>(i, j). map (map f) rows ! i ! j) (triu_indices n) =
         map f (map (\<lambda>(i, j). rows ! i ! j) (triu_indices n))"
proof -
  have "map (\<lambda>(i, j). map (map f) rows ! i ! j) (triu_indices n) =
        map (f \<circ> (\<lambda>(i, j). rows ! i ! j)) (triu_indices n)"
    using assms by (intro map_cong) (auto simp: set_triu_indices list_all_length)
  then show ?thesis by simp
qed

lemma triu_map_to_squareform:
  assumes "length v = length (triu_indices n)"
  shows "map (\<lambda>(i, j). map (map f) (to_squareform_from_vector n v) ! i ! j) (triu_indices n) =
         map f v"
  using triu_map_rows [of "to_squareform_from_vector n v" n f] wf_to_squareform [of n v]
    triu_of_to_squareform [OF assms]
  by (simp add: length_to_squareform)

lemma to_squareform_map:
  assumes "length v = length (triu_indices n)"
  shows "to_squareform_from_vector n (map f v) =
         map (\<lambda>i. map (\<lambda>j. if i = j then 0 else f (to_squareform_from_vector n v ! i ! j)) [0..<n])
           [0..<n]"
proof -
  have look: "(case map_of (zip (triu_indices n) (map f v)) (min i j, max i j) of
                 Some x \<Rightarrow> x | None \<Rightarrow> 0) = f (to_squareform_from_vector n v ! i ! j)"
    if "i < n" "j < n" "i \<noteq> j" for i j
  proof -
    have "(min i j, max i j) \<in> set (triu_indices n)"
      using that by (auto simp: set_triu_indices)
    then obtain x where x: "map_of (zip (triu_indices n) v) (min i j, max i j) = Some x"
      using assms by (metis map_of_zip_is_Some)
    have "zip (triu_indices n) (map f v) = map (\<lambda>(p, y). (p, f y)) (zip (triu_indices n) v)"
      by (simp add: zip_map2)
    then have "map_of (zip (triu_indices n) (map f v)) (min i j, max i j) = Some (f x)"
      using x by (simp add: map_of_map)
    then show ?thesis
      using that x by (simp add: to_squareform_nth)
  qed
  show ?thesis
    unfolding to_squareform_from_vector_def [of n "map f v"]
    by (intro map_cong refl) (auto simp: look)
qed

lemma init_labels_single:
  assumes "0 < n" "length v = length (triu_indices n)"
    "issymmetric a = Flag True" "is_single_matrix a = Flag True" "data a = Vec v"
    "matrix_type a \<noteq> Some ''empty''"
    "case lbls of None \<Rightarrow> True | Some l \<Rightarrow> labels_len l = n"
  shows "init_labels a lbls = Inr lbls"
  using assms(4,7) square_shape_single_symmetric [OF assms(1-6)]
  by (auto simp: init_labels_def square_shape0_def split: option.splits)

lemma init_typed_square:
  fixes rows :: "'a::semiring_1 list list"
  assumes "0 < n" "length rows = n" "t = ''distance'' \<or> t = ''similarity''"
    "case lbls of None \<Rightarrow> True | Some l \<Rightarrow> labels_len l = n"
  shows "init (Array (Mat n rows)) None (Some t) lbls =
         Inr (\<lparr>data = Vec (map (\<lambda>(i, j). rows ! i ! j) (triu_indices n)),
               matrix_type = Some t, issymmetric = Flag True, is_single_matrix = Flag True,
               Y = DataFrame [], labels = lbls\<rparr> :: ('a, 'c) adjacency)"
proof -
  let ?v = "map (\<lambda>(i, j). rows ! i ! j) (triu_indices n)"
  have low: "str_lower t = t"
    using assms(3) str_lower_distance str_lower_similarity by auto
  have imp: "import_single_data (Mat n rows) (Some t) =
     Inr \<lparr>i_data = Vec ?v, i_issymmetric = True, i_matrix_type = Some t,
          i_is_single_matrix = True\<rparr>"
    using assms(2,3) index_pairs_triu [OF assms(2)]
    by (auto simp: import_single_data_def import_typed_def low simp del: index_pairs.simps)
  have lab: "init_labels (\<lparr>data = Vec ?v, matrix_type = Some t, issymmetric = Flag True,
               is_single_matrix = Flag True, Y = DataFrame [], labels = None\<rparr> :: ('a, 'c) adjacency)
               lbls = Inr lbls"
    by (rule init_labels_single [OF assms(1)]) (use assms(3,4) in auto)
  have valid: "str_lower t \<in> set valid_matrix_types"
    using assms(3) by (auto simp: low valid_matrix_types_def)
  show ?thesis
    using valid by (simp add: init_def init_fields_def imp init_Y_def lab)
qed

lemma to_squareform_2: "to_squareform_from_vector 2 [x] = [[0, x], [x, 0]]"
  by (simp add: to_squareform_from_vector_def triu_indices_2 upt_rec)

section \<open>The claims\<close>

text \<open>
  C1. Flattening and unflattening lose nothing. For every square matrix \<open>M\<close> of side
  \<open>n \<ge> 1\<close> that is symmetric (equal to its transpose), constructing an Adjacency from \<open>M\<close>
  with no \<^verbatim>\<open>matrix_type\<close> and calling \<^verbatim>\<open>squareform\<close> gives \<open>M\<close> with its diagonal set to
  zero, whatever the diagonal of \<open>M\<close> (a unit diagonal among others), hence \<open>M\<close> itself when
  the diagonal of \<open>M\<close> is zero; and for every square matrix that is not symmetric the same
  two calls give \<open>M\<close> itself.
\<close>

theorem squareform_roundtrip:
  fixes rows :: "'a::semiring_1 list list"
  assumes "0 < n" and "length rows = n" and "wf_ndarray (Mat n rows)"
  shows
    "(np_T (Mat n rows) = Mat n rows \<longrightarrow>
        (\<exists>a :: ('a, 'c) adjacency.
           init (Array (Mat n rows)) None None None = Inr a \<and>
           squareform a =
             Inr (Square (Mat n (map (\<lambda>i. map (\<lambda>j. if i = j then 0 else rows ! i ! j) [0..<n])
                                  [0..<n]))))) \<and>
     (np_T (Mat n rows) = Mat n rows \<and> (\<forall>i<n. rows ! i ! i = 0) \<longrightarrow>
        (\<exists>a :: ('a, 'c) adjacency.
           init (Array (Mat n rows)) None None None = Inr a \<and>
           squareform a = Inr (Square (Mat n rows)))) \<and>
     (np_T (Mat n rows) \<noteq> Mat n rows \<longrightarrow>
        (\<exists>a :: ('a, 'c) adjacency.
           init (Array (Mat n rows)) None None None = Inr a \<and>
           squareform a = Inr (Square (Mat n rows))))"
proof -
  have wf: "list_all (\<lambda>r. length r = n) rows"
    using assms(3) by simp
  let ?up = "map (\<lambda>(i, j). rows ! i ! j) (triu_indices n)"
  let ?R = "map (\<lambda>i. map (\<lambda>j. if i = j then 0 else rows ! i ! j) [0..<n]) [0..<n]"
  have sym_case: "\<exists>a :: ('a, 'c) adjacency.
      init (Array (Mat n rows)) None None None = Inr a \<and> squareform a = Inr (Square (Mat n ?R))"
    if t: "np_T (Mat n rows) = Mat n rows"
  proof -
    have eq: "rows ! i ! j = rows ! j ! i" if "i < n" "j < n" for i j
      using t transpose_symmetric_iff [OF assms(2) wf] that
      by (cases i j rule: linorder_cases) auto
    let ?a = "\<lparr>data = Vec ?up,
               matrix_type =
                 (if sum_diag (Mat n rows) = 0 then Some ''distance''
                  else if sum_diag (Mat n rows) = of_nat n then Some ''similarity''
                  else None),
               issymmetric = Flag True, is_single_matrix = Flag True,
               Y = DataFrame [], labels = None\<rparr> :: ('a, 'c) adjacency"
    have "to_squareform_from_vector n ?up = ?R"
      by (rule to_squareform_of_triu) (rule eq)
    moreover have "squareform ?a = Inr (Square (Mat n (to_squareform_from_vector n ?up)))"
      by (rule squareform_single_symmetric [OF assms(1)]) simp_all
    ultimately have "squareform ?a = Inr (Square (Mat n ?R))"
      by simp
    then show ?thesis
      using init_square_symmetric [OF assms(2) wf t] by blast
  qed
  have zero_case: "?R = rows" if "\<forall>i<n. rows ! i ! i = 0"
  proof (rule nth_equalityI)
    show "length ?R = length rows" using assms(2) by simp
  next
    fix i assume "i < length ?R"
    then have i: "i < n" by simp
    then have li: "length (rows ! i) = n"
      using wf assms(2) by (simp add: list_all_length)
    have "map (\<lambda>j. if i = j then 0 else rows ! i ! j) [0..<n] = rows ! i"
      by (rule nth_equalityI) (use i li that in auto)
    then show "?R ! i = rows ! i" using i by (simp cong: if_cong)
  qed
  have dir_case: "\<exists>a :: ('a, 'c) adjacency.
      init (Array (Mat n rows)) None None None = Inr a \<and> squareform a = Inr (Square (Mat n rows))"
    if t: "np_T (Mat n rows) \<noteq> Mat n rows"
    using reshape_square_flatten [OF assms(2) wf]
    by (simp add: init_square_directed [OF assms(2) wf t] squareform_def)
  from zero_case have zero_case': "Mat n ?R = Mat n rows" if "\<forall>i<n. rows ! i ! i = 0"
    using that by simp
  show ?thesis
  proof (intro conjI impI)
    assume "np_T (Mat n rows) = Mat n rows"
    then show "\<exists>a :: ('a, 'c) adjacency.
      init (Array (Mat n rows)) None None None = Inr a \<and> squareform a = Inr (Square (Mat n ?R))"
      by (rule sym_case)
  next
    assume "np_T (Mat n rows) = Mat n rows \<and> (\<forall>i<n. rows ! i ! i = 0)"
    then show "\<exists>a :: ('a, 'c) adjacency.
      init (Array (Mat n rows)) None None None = Inr a \<and> squareform a = Inr (Square (Mat n rows))"
      using sym_case zero_case' by auto
  next
    assume "np_T (Mat n rows) \<noteq> Mat n rows"
    then show "\<exists>a :: ('a, 'c) adjacency.
      init (Array (Mat n rows)) None None None = Inr a \<and> squareform a = Inr (Square (Mat n rows))"
      by (rule dir_case)
  qed
qed

theorem squareform_roundtrip_witness:
  "(\<exists>a :: (real, unit) adjacency.
      init (Array (Mat 3 [[1, 1/2, 1/5], [1/2, 1, 3/10], [1/5, 3/10, 1]])) None None None = Inr a \<and>
      squareform a = Inr (Square (Mat 3 [[0, 1/2, 1/5], [1/2, 0, 3/10], [1/5, 3/10, 0]]))) \<and>
   (\<exists>a :: (real, unit) adjacency.
      init (Array (Mat 3 [[0, 3, 4], [3, 0, 5], [4, 5, 0]])) None None None = Inr a \<and>
      squareform a = Inr (Square (Mat 3 [[0, 3, 4], [3, 0, 5], [4, 5, 0]]))) \<and>
   (\<exists>a :: (real, unit) adjacency.
      init (Array (Mat 2 [[2, 1], [3, 5]])) None None None = Inr a \<and>
      squareform a = Inr (Square (Mat 2 [[2, 1], [3, 5]])))"
proof -
  have up3: "[0..<3] = [0, 1, 2]" by (simp add: upt_rec)
  have up2: "[0..<2] = [0, 1]" by (simp add: upt_rec)
  have z: "\<forall>i<3. [[0, 3, 4], [3, 0, 5], [4, 5, 0::real]] ! i ! i = 0"
    by (auto simp: less_Suc_eq numeral_3_eq_3)
  have t1: "np_T (Mat 3 [[1, 1/2, 1/5], [1/2, 1, 3/10], [1/5, 3/10, 1::real]]) =
            Mat 3 [[1, 1/2, 1/5], [1/2, 1, 3/10], [1/5, 3/10, 1]]"
    by (simp add: up3)
  have t2: "np_T (Mat 3 [[0, 3, 4], [3, 0, 5], [4, 5, 0::real]]) = Mat 3 [[0, 3, 4], [3, 0, 5], [4, 5, 0]]"
    by (simp add: up3)
  have t3: "np_T (Mat 2 [[2, 1], [3, 5::real]]) \<noteq> Mat 2 [[2, 1], [3, 5]]"
    by (simp add: up2)
  have r1: "map (\<lambda>i. map (\<lambda>j. if i = j then 0 else [[1, 1/2, 1/5], [1/2, 1, 3/10], [1/5, 3/10, 1::real]] ! i ! j)
              [0..<3]) [0..<3] = [[0, 1/2, 1/5], [1/2, 0, 3/10], [1/5, 3/10, 0]]"
    by (simp add: up3)
  have c1: "\<exists>a :: (real, unit) adjacency.
      init (Array (Mat 3 [[1, 1/2, 1/5], [1/2, 1, 3/10], [1/5, 3/10, 1]])) None None None = Inr a \<and>
      squareform a = Inr (Square (Mat 3 [[0, 1/2, 1/5], [1/2, 0, 3/10], [1/5, 3/10, 0]]))"
    using squareform_roundtrip [of 3 "[[1, 1/2, 1/5], [1/2, 1, 3/10], [1/5, 3/10, 1::real]]",
        where ?'c = unit] t1 unfolding r1 by simp
  have c2: "\<exists>a :: (real, unit) adjacency.
      init (Array (Mat 3 [[0, 3, 4], [3, 0, 5], [4, 5, 0]])) None None None = Inr a \<and>
      squareform a = Inr (Square (Mat 3 [[0, 3, 4], [3, 0, 5], [4, 5, 0]]))"
    using squareform_roundtrip [of 3 "[[0, 3, 4], [3, 0, 5], [4, 5, 0::real]]", where ?'c = unit]
      t2 z by simp
  have c3: "\<exists>a :: (real, unit) adjacency.
      init (Array (Mat 2 [[2, 1], [3, 5]])) None None None = Inr a \<and>
      squareform a = Inr (Square (Mat 2 [[2, 1], [3, 5]]))"
    using squareform_roundtrip [of 2 "[[2, 1], [3, 5::real]]", where ?'c = unit] t3 by simp
  show ?thesis
    using c1 c2 c3 by (intro conjI)
qed

text \<open>
  C2. Type inference when \<^verbatim>\<open>matrix_type\<close> is omitted. For every square symmetric matrix of
  side \<open>n \<ge> 1\<close>: when its diagonal sums to exactly 0 the constructed instance has
  \<^verbatim>\<open>matrix_type\<close> \<^verbatim>\<open>'distance'\<close>, when it sums to exactly \<open>n\<close> it has \<^verbatim>\<open>'similarity'\<close>; in both
  cases \<^verbatim>\<open>issymmetric\<close> is true and \<^verbatim>\<open>data\<close> is the vector of the entries above the diagonal,
  row by row. The elements are of a type where \<open>n \<noteq> 0\<close> as a number (characteristic 0).
\<close>

theorem type_inference:
  fixes rows :: "'a::semiring_char_0 list list"
  assumes "0 < n" and "length rows = n" and "wf_ndarray (Mat n rows)"
    and "np_T (Mat n rows) = Mat n rows"
  shows
    "(sum_diag (Mat n rows) = 0 \<longrightarrow>
        init (Array (Mat n rows)) None None None =
          Inr (\<lparr>data = Vec (map (\<lambda>(i, j). rows ! i ! j) (triu_indices n)),
                matrix_type = Some ''distance'',
                issymmetric = Flag True, is_single_matrix = Flag True,
                Y = DataFrame [], labels = None\<rparr> :: ('a, 'c) adjacency)) \<and>
     (sum_diag (Mat n rows) = of_nat n \<longrightarrow>
        init (Array (Mat n rows)) None None None =
          Inr (\<lparr>data = Vec (map (\<lambda>(i, j). rows ! i ! j) (triu_indices n)),
                matrix_type = Some ''similarity'',
                issymmetric = Flag True, is_single_matrix = Flag True,
                Y = DataFrame [], labels = None\<rparr> :: ('a, 'c) adjacency))"
proof -
  have wf: "list_all (\<lambda>r. length r = n) rows"
    using assms(3) by simp
  have "of_nat n \<noteq> (0::'a)"
    using assms(1) by simp
  then show ?thesis
    using init_square_symmetric [OF assms(2) wf assms(4), where ?'c = 'c]
    by (simp del: sum_diag.simps)
qed

theorem type_inference_witness:
  "init (Array (Mat 3 [[1, 1/2, 1/5], [1/2, 1, 3/10], [1/5, 3/10, 1]])) None None None =
     Inr (\<lparr>data = Vec [1/2, 1/5, 3/10], matrix_type = Some ''similarity'',
           issymmetric = Flag True, is_single_matrix = Flag True,
           Y = DataFrame [], labels = None\<rparr> :: (real, unit) adjacency) \<and>
   init (Array (Mat 3 [[0, 3, 4], [3, 0, 5], [4, 5, 0]])) None None None =
     Inr (\<lparr>data = Vec [3, 4, 5], matrix_type = Some ''distance'',
           issymmetric = Flag True, is_single_matrix = Flag True,
           Y = DataFrame [], labels = None\<rparr> :: (real, unit) adjacency)"
proof -
  have up3: "[0..<3] = [0, 1, 2]" by (simp add: upt_rec)
  have t1: "np_T (Mat 3 [[1, 1/2, 1/5], [1/2, 1, 3/10], [1/5, 3/10, 1::real]]) =
            Mat 3 [[1, 1/2, 1/5], [1/2, 1, 3/10], [1/5, 3/10, 1]]"
    by (simp add: up3)
  have t2: "np_T (Mat 3 [[0, 3, 4], [3, 0, 5], [4, 5, 0::real]]) = Mat 3 [[0, 3, 4], [3, 0, 5], [4, 5, 0]]"
    by (simp add: up3)
  have s1: "sum_diag (Mat 3 [[1, 1/2, 1/5], [1/2, 1, 3/10], [1/5, 3/10, 1::real]]) = of_nat 3"
    by (simp add: up3)
  have s2: "sum_diag (Mat 3 [[0, 3, 4], [3, 0, 5], [4, 5, 0::real]]) = 0"
    by (simp add: up3)
  have c1: "init (Array (Mat 3 [[1, 1/2, 1/5], [1/2, 1, 3/10], [1/5, 3/10, 1]])) None None None =
     Inr (\<lparr>data = Vec [1/2, 1/5, 3/10], matrix_type = Some ''similarity'',
           issymmetric = Flag True, is_single_matrix = Flag True,
           Y = DataFrame [], labels = None\<rparr> :: (real, unit) adjacency)"
    using type_inference [of 3 "[[1, 1/2, 1/5], [1/2, 1, 3/10], [1/5, 3/10, 1::real]]",
        where ?'c = unit] t1 s1
    by (simp add: triu_indices_3 del: sum_diag.simps np_T.simps)
  have c2: "init (Array (Mat 3 [[0, 3, 4], [3, 0, 5], [4, 5, 0]])) None None None =
     Inr (\<lparr>data = Vec [3, 4, 5], matrix_type = Some ''distance'',
           issymmetric = Flag True, is_single_matrix = Flag True,
           Y = DataFrame [], labels = None\<rparr> :: (real, unit) adjacency)"
    using type_inference [of 3 "[[0, 3, 4], [3, 0, 5], [4, 5, 0::real]]", where ?'c = unit] t2 s2
    by (simp add: triu_indices_3 del: sum_diag.simps np_T.simps)
  show ?thesis
    using c1 c2 by (intro conjI)
qed

text \<open>
  C3, as the claim states it, fails: for a symmetric matrix whose diagonal sums neither to 0
  nor to its side, the construction returns an instance whose \<^verbatim>\<open>matrix_type\<close> is \<^verbatim>\<open>None\<close>,
  and reading that field raises nothing: \<^verbatim>\<open>isempty\<close> answers false and \<^verbatim>\<open>square_shape\<close>
  answers the shape. Here at the matrix \<open>[[2, 1], [1, 5]]\<close>, whose diagonal sums to 7.
\<close>

theorem odd_diagonal_counterexample:
  "init (Array (Mat 2 [[2, 1], [1, 5::int]])) None None None =
     Inr (\<lparr>data = Vec [1], matrix_type = None, issymmetric = Flag True,
           is_single_matrix = Flag True, Y = DataFrame [], labels = None\<rparr> :: (int, unit) adjacency) \<and>
   isempty (\<lparr>data = Vec [1], matrix_type = None, issymmetric = Flag True,
           is_single_matrix = Flag True, Y = DataFrame [], labels = None\<rparr> :: (int, unit) adjacency)
     = False \<and>
   square_shape (\<lparr>data = Vec [1], matrix_type = None, issymmetric = Flag True,
           is_single_matrix = Flag True, Y = DataFrame [], labels = None\<rparr> :: (int, unit) adjacency)
     = Inr [2, 2]"
proof -
  have up2: "[0..<2] = [0, 1]" by (simp add: upt_rec)
  have t: "np_T (Mat 2 [[2, 1], [1, 5::int]]) = Mat 2 [[2, 1], [1, 5]]"
    by (simp add: up2)
  have i: "init (Array (Mat 2 [[2, 1], [1, 5::int]])) None None None =
     Inr (\<lparr>data = Vec [1], matrix_type = None, issymmetric = Flag True,
           is_single_matrix = Flag True, Y = DataFrame [], labels = None\<rparr> :: (int, unit) adjacency)"
    using init_square_symmetric [of "[[2, 1], [1, 5::int]]" 2, where ?'c = unit] t
    by (simp add: triu_indices_2 up2 del: np_T.simps)
  have s: "square_shape (\<lparr>data = Vec [1], matrix_type = None, issymmetric = Flag True,
           is_single_matrix = Flag True, Y = DataFrame [], labels = None\<rparr> :: (int, unit) adjacency)
     = Inr [2, 2]"
    by (rule square_shape_single_symmetric) (simp_all add: triu_indices_2)
  show ?thesis
    using i s by (simp add: isempty_def)
qed

text \<open>
  C3, amended. For every square symmetric matrix of side \<open>n \<ge> 1\<close> whose diagonal sums
  neither to 0 nor to \<open>n\<close>, construction with \<^verbatim>\<open>matrix_type\<close> omitted succeeds, with no error
  at construction, and stores \<^verbatim>\<open>None\<close> as \<^verbatim>\<open>matrix_type\<close> (the parameter's default value;
  no variable is unbound). Referring to the field does not raise by itself: \<^verbatim>\<open>isempty\<close>
  answers false and \<^verbatim>\<open>square_shape\<close> answers \<open>(n, n)\<close>, while \<^verbatim>\<open>similarity_to_distance\<close> raises
  its ValueError of a matrix that is not a similarity matrix. (Which other methods raise
  later is left open.)
\<close>

theorem odd_diagonal_keeps_None:
  fixes rows :: "'a::ring_1 list list"
  assumes "0 < n" and "length rows = n" and "wf_ndarray (Mat n rows)"
    and "np_T (Mat n rows) = Mat n rows"
    and "sum_diag (Mat n rows) \<noteq> 0" and "sum_diag (Mat n rows) \<noteq> of_nat n"
  shows "\<exists>a :: ('a, 'c) adjacency.
           init (Array (Mat n rows)) None None None = Inr a \<and>
           matrix_type a = None \<and>
           issymmetric a = Flag True \<and>
           data a = Vec (map (\<lambda>(i, j). rows ! i ! j) (triu_indices n)) \<and>
           isempty a = False \<and>
           square_shape a = Inr [n, n] \<and>
           similarity_to_distance a = Inl (ValueError ''Matrix is not a similarity matrix.'')"
proof -
  have wf: "list_all (\<lambda>r. length r = n) rows"
    using assms(3) by simp
  let ?a = "\<lparr>data = Vec (map (\<lambda>(i, j). rows ! i ! j) (triu_indices n)),
             matrix_type = None, issymmetric = Flag True, is_single_matrix = Flag True,
             Y = DataFrame [], labels = None\<rparr> :: ('a, 'c) adjacency"
  have "init (Array (Mat n rows)) None None None = Inr ?a"
    using init_square_symmetric [OF assms(2) wf assms(4), where ?'c = 'c] assms(5,6)
    by (simp del: sum_diag.simps)
  moreover have "square_shape ?a = Inr [n, n]"
    by (rule square_shape_single_symmetric [OF assms(1)]) simp_all
  moreover have "similarity_to_distance ?a = Inl (ValueError ''Matrix is not a similarity matrix.'')"
    by (simp add: similarity_to_distance_def)
  ultimately show ?thesis
    by (simp add: isempty_def)
qed

theorem odd_diagonal_keeps_None_witness:
  "\<exists>a :: (int, unit) adjacency.
     init (Array (Mat 2 [[2, 1], [1, 5]])) None None None = Inr a \<and>
     matrix_type a = None \<and>
     issymmetric a = Flag True \<and>
     data a = Vec [1] \<and>
     isempty a = False \<and>
     square_shape a = Inr [2, 2] \<and>
     similarity_to_distance a = Inl (ValueError ''Matrix is not a similarity matrix.'')"
proof -
  have up2: "[0..<2] = [0, 1]" by (simp add: upt_rec)
  have t: "np_T (Mat 2 [[2, 1], [1, 5::int]]) = Mat 2 [[2, 1], [1, 5]]"
    by (simp add: up2)
  have s: "sum_diag (Mat 2 [[2, 1], [1, 5::int]]) = 7"
    by (simp add: up2)
  show ?thesis
    using odd_diagonal_keeps_None [of 2 "[[2, 1], [1, 5::int]]", where ?'c = unit] t s
    by (simp add: triu_indices_2 del: sum_diag.simps np_T.simps)
qed

text \<open>
  C4. Stacking. A non-empty list of \<open>k\<close> square matrices of one side \<open>n\<close> that all resolve
  (in \<^verbatim>\<open>_import_single_data\<close>) to one \<^verbatim>\<open>issymmetric\<close> and one \<^verbatim>\<open>matrix_type\<close> constructs an
  instance with \<^verbatim>\<open>is_single_matrix\<close> false, length \<open>k\<close> and \<open>k\<close> as the first entry of its
  shape. And whenever every element of a list resolves and two of the results differ in
  \<^verbatim>\<open>issymmetric\<close> or in \<^verbatim>\<open>matrix_type\<close>, construction raises a ValueError, whatever \<^verbatim>\<open>Y\<close>,
  \<^verbatim>\<open>matrix_type\<close> and \<^verbatim>\<open>labels\<close> it is given. The comparison is \<open>all_same\<close>, modelled from the
  spec.
\<close>

theorem stacking_consistency:
  fixes ds :: "'a::semiring_1 ndarray list"
  shows
    "(ds \<noteq> [] \<and>
      (\<forall>d\<in>set ds. \<exists>rows. d = Mat n rows \<and> length rows = n \<and> wf_ndarray d) \<and>
      (\<forall>d\<in>set ds. \<exists>imp. import_single_data d None = Inr imp \<and>
                           i_issymmetric imp = s \<and> i_matrix_type imp = t) \<longrightarrow>
      (\<exists>a :: ('a, 'c) adjacency.
         init (RawList ds) None None None = Inr a \<and>
         is_single_matrix a = Flag False \<and>
         len a = length ds \<and>
         hd (shape a) = length ds \<and>
         issymmetric a = Flag s \<and> matrix_type a = t)) \<and>
     (collect (\<lambda>d. import_single_data d mt) ds = Inr imps \<and>
      (\<exists>x\<in>set imps. \<exists>y\<in>set imps.
         i_issymmetric x \<noteq> i_issymmetric y \<or> i_matrix_type x \<noteq> i_matrix_type y) \<longrightarrow>
      (\<exists>msg. init (RawList ds) y mt lbls = (Inl (ValueError msg) :: error + ('a, 'c) adjacency)))"
proof (intro conjI impI)
  assume h: "ds \<noteq> [] \<and>
      (\<forall>d\<in>set ds. \<exists>rows. d = Mat n rows \<and> length rows = n \<and> wf_ndarray d) \<and>
      (\<forall>d\<in>set ds. \<exists>imp. import_single_data d None = Inr imp \<and>
                           i_issymmetric imp = s \<and> i_matrix_type imp = t)"
  then obtain g where g: "\<And>d. d \<in> set ds \<Longrightarrow>
      import_single_data d None = Inr (g d) \<and> i_issymmetric (g d) = s \<and> i_matrix_type (g d) = t"
    by metis
  define m where "m = (if s then length (triu_indices n) else n * n)"
  have vec: "\<exists>v. i_data (g d) = Vec v \<and> length v = m" if "d \<in> set ds" for d
  proof -
    from h that obtain rows where r: "d = Mat n rows" "length rows = n" "wf_ndarray d"
      by blast
    then have "length (concat rows) = n * n"
      using length_concat_rows [of n rows] by simp
    then show ?thesis
      using import_inferred_square_data [OF r(2), of "g d"] g [OF that] r(1)
      by (auto simp: m_def)
  qed
  have col: "collect (\<lambda>x. import_single_data x None) ds = Inr (map g ds)"
    by (rule collect_Inr) (simp add: g)
  have s1: "all_same (map i_issymmetric (map g ds))"
    unfolding map_map by (rule all_same_const [where c = s]) (simp add: g)
  have s2: "all_same (map i_matrix_type (map g ds))"
    unfolding map_map by (rule all_same_const [where c = t]) (simp add: g)
  obtain d0 ds' where ds: "ds = d0 # ds'"
    using h by (cases ds) auto
  have arr: "np_array_of (map i_data (map g ds)) = Inr (Mat m (map ravel (map i_data (map g ds))))"
  proof -
    have "list_all (\<lambda>x. ndim x = 1 \<and> shape0 x = m) (map i_data (map g ds))"
      using vec by (fastforce simp: list_all_iff)
    moreover have "shape0 (i_data (g d0)) = m"
      using vec [of d0] ds by auto
    ultimately show ?thesis
      by (simp add: np_array_of_def ds)
  qed
  have hd: "i_issymmetric (hd (map g ds)) = s" "i_matrix_type (hd (map g ds)) = t"
    using g [of d0] ds by simp_all
  show "\<exists>a :: ('a, 'c) adjacency.
         init (RawList ds) None None None = Inr a \<and>
         is_single_matrix a = Flag False \<and>
         len a = length ds \<and>
         hd (shape a) = length ds \<and>
         issymmetric a = Flag s \<and> matrix_type a = t"
    using col s1 s2 arr hd
    by (simp add: init_def init_fields_def init_Y_def init_labels_def len_def shape_def ds)
next
  assume h: "collect (\<lambda>d. import_single_data d mt) ds = Inr imps \<and>
      (\<exists>x\<in>set imps. \<exists>y\<in>set imps.
         i_issymmetric x \<noteq> i_issymmetric y \<or> i_matrix_type x \<noteq> i_matrix_type y)"
  then have ne: "imps \<noteq> []" by auto
  then have "ds \<noteq> []"
    using h collect_length [of "\<lambda>d. import_single_data d mt" ds imps] by auto
  then obtain d0 ds' where ds: "ds = d0 # ds'"
    by (cases ds) auto
  have "\<not> all_same (map i_issymmetric imps) \<or> \<not> all_same (map i_matrix_type imps)"
    using h not_all_same [of _ imps _ i_issymmetric] not_all_same [of _ imps _ i_matrix_type]
    by blast
  then show "\<exists>msg. init (RawList ds) y mt lbls = (Inl (ValueError msg) :: error + ('a, 'c) adjacency)"
    using h by (auto simp: init_def init_fields_def ds)
qed

theorem stacking_consistency_witness:
  "(\<exists>a :: (int, unit) adjacency.
      init (RawList [Mat 2 [[0, 1], [1, 0]], Mat 2 [[0, 7], [7, 0]]]) None None None = Inr a \<and>
      is_single_matrix a = Flag False \<and> len a = 2 \<and> hd (shape a) = 2 \<and>
      issymmetric a = Flag True \<and> matrix_type a = Some ''distance'') \<and>
   (\<exists>msg. init (RawList [Mat 2 [[0, 1], [1, 0]], Mat 2 [[1, 7], [7, 1]]]) None None None =
      (Inl (ValueError msg) :: error + (int, unit) adjacency))"
proof -
  have up2: "[0..<2] = [0, 1]" by (simp add: upt_rec)
  have i1: "import_single_data (Mat 2 [[0, 1], [1, 0::int]]) None =
            Inr \<lparr>i_data = Vec [1], i_issymmetric = True, i_matrix_type = Some ''distance'',
                 i_is_single_matrix = True\<rparr>"
    by (simp add: import_single_data_def import_inferred_square triu_indices_2 up2)
  have i2: "import_single_data (Mat 2 [[0, 7], [7, 0::int]]) None =
            Inr \<lparr>i_data = Vec [7], i_issymmetric = True, i_matrix_type = Some ''distance'',
                 i_is_single_matrix = True\<rparr>"
    by (simp add: import_single_data_def import_inferred_square triu_indices_2 up2)
  have i3: "import_single_data (Mat 2 [[1, 7], [7, 1::int]]) None =
            Inr \<lparr>i_data = Vec [7], i_issymmetric = True, i_matrix_type = Some ''similarity'',
                 i_is_single_matrix = True\<rparr>"
    by (simp add: import_single_data_def import_inferred_square triu_indices_2 up2)
  have c1: "\<exists>a :: (int, unit) adjacency.
      init (RawList [Mat 2 [[0, 1], [1, 0]], Mat 2 [[0, 7], [7, 0]]]) None None None = Inr a \<and>
      is_single_matrix a = Flag False \<and> len a = 2 \<and> hd (shape a) = 2 \<and>
      issymmetric a = Flag True \<and> matrix_type a = Some ''distance''"
    using stacking_consistency [where ds = "[Mat 2 [[0, 1], [1, 0::int]], Mat 2 [[0, 7], [7, 0]]]"
        and n = 2 and s = True and t = "Some ''distance''" and ?'c = unit, THEN conjunct1] i1 i2
    by (simp add: numeral_2_eq_2)
  have c2: "\<exists>msg. init (RawList [Mat 2 [[0, 1], [1, 0]], Mat 2 [[1, 7], [7, 1]]]) None None None =
      (Inl (ValueError msg) :: error + (int, unit) adjacency)"
    using stacking_consistency [where ds = "[Mat 2 [[0, 1], [1, 0::int]], Mat 2 [[1, 7], [7, 1]]]"
        and mt = None and y = None and lbls = None and ?'c = unit
        and imps = "[\<lparr>i_data = Vec [1], i_issymmetric = True, i_matrix_type = Some ''distance'',
                      i_is_single_matrix = True\<rparr>,
                    \<lparr>i_data = Vec [7], i_issymmetric = True, i_matrix_type = Some ''similarity'',
                      i_is_single_matrix = True\<rparr>]", THEN conjunct2] i1 i3
    by auto
  show ?thesis
    using c1 c2 by (intro conjI)
qed

text \<open>
  C5. The length is 1 for a single matrix and the number of rows for a stack, and
  iterating a stack (with an empty \<^verbatim>\<open>Y\<close>) yields its rows in order, each as a single-matrix
  instance (\<open>len_single\<close>, \<open>len_iter_stacked\<close>). Iterating an instance that holds a single
  matrix does not yield it: \<^verbatim>\<open>__len__\<close> answers 1, \<^verbatim>\<open>__iter__\<close> asks for \<^verbatim>\<open>self[0]\<close>, and
  \<^verbatim>\<open>__getitem__\<close> indexes the stored vector with two indices. Here on the instance built
  from \<open>[[0, 3, 4], [3, 0, 5], [4, 5, 0]]\<close>.
\<close>

theorem iter_single_matrix_raises:
  "init (Array (Mat 3 [[0, 3, 4], [3, 0, 5], [4, 5, 0]])) None None None =
     Inr (\<lparr>data = Vec [3, 4, 5], matrix_type = Some ''distance'', issymmetric = Flag True,
           is_single_matrix = Flag True, Y = DataFrame [], labels = None\<rparr> :: (int, unit) adjacency) \<and>
   len (\<lparr>data = Vec [3, 4, 5], matrix_type = Some ''distance'', issymmetric = Flag True,
         is_single_matrix = Flag True, Y = DataFrame [], labels = None\<rparr> :: (int, unit) adjacency) = 1 \<and>
   iter (\<lparr>data = Vec [3, 4, 5], matrix_type = Some ''distance'', issymmetric = Flag True,
          is_single_matrix = Flag True, Y = DataFrame [], labels = None\<rparr> :: (int, unit) adjacency) =
     Inl (IndexError ''too many indices for array'')"
proof -
  have up3: "[0..<3] = [0, 1, 2]" by (simp add: upt_rec)
  have t: "np_T (Mat 3 [[0, 3, 4], [3, 0, 5], [4, 5, 0::int]]) = Mat 3 [[0, 3, 4], [3, 0, 5], [4, 5, 0]]"
    by (simp add: up3)
  have i: "init (Array (Mat 3 [[0, 3, 4], [3, 0, 5], [4, 5, 0]])) None None None =
     Inr (\<lparr>data = Vec [3, 4, 5], matrix_type = Some ''distance'', issymmetric = Flag True,
           is_single_matrix = Flag True, Y = DataFrame [], labels = None\<rparr> :: (int, unit) adjacency)"
    using init_square_symmetric [of "[[0, 3, 4], [3, 0, 5], [4, 5, 0::int]]" 3, where ?'c = unit] t
    by (simp add: triu_indices_3 up3 del: np_T.simps)
  show ?thesis
    using i by (simp add: len_def iter_def getitem_def)
qed

text \<open>
  C6. With \<^verbatim>\<open>binarize=True\<close> and no cutoff the stored values are 0 or 1, and with an upper
  cutoff \<open>X \<noteq> 0\<close> no stored value of the result is both nonzero and below \<open>X\<close>
  (\<open>threshold_binarize\<close>, \<open>threshold_upper_nonzero\<close>); the receiver is a value and stays as it
  is. At the cutoff \<open>X = 0\<close> the test \<^verbatim>\<open>if upper and lower\<close> and its two siblings take the
  number 0 for a missing cutoff, and nothing is thresholded: the value \<open>-1\<close> stays, nonzero
  and below 0.
\<close>

theorem threshold_upper_zero:
  "threshold (\<lambda>d s. Inl (ValueError ''could not convert string to float''))
     (\<lparr>data = Vec [- 1, 2, 3], matrix_type = Some ''similarity'', issymmetric = Flag True,
       is_single_matrix = Flag True, Y = DataFrame [], labels = None\<rparr> :: (int, unit) adjacency)
     (Cut 0) NoCutoff False =
   Inr \<lparr>data = Vec [- 1, 2, 3], matrix_type = Some ''similarity'', issymmetric = Flag True,
        is_single_matrix = Flag True, Y = DataFrame [], labels = None\<rparr>"
  by (simp add: threshold_def resolve_cutoff_def)

text \<open>
  C7, as the claim states it, fails on the diagonal: the result of
  \<^verbatim>\<open>similarity_to_distance\<close> stores the upper triangle only, so its square form has a zero
  diagonal, while 1 minus the receiver's square form has ones there. Here for the
  similarity instance with stored vector \<open>[1/4]\<close> and labels \<open>a\<close>, \<open>b\<close>.
\<close>

theorem conversion_diagonal_counterexample:
  "similarity_to_distance (\<lparr>data = Vec [1/4], matrix_type = Some ''similarity'', issymmetric = Flag True,
        is_single_matrix = Flag True, Y = DataFrame [], labels = Some (Labels [''a'', ''b''])\<rparr> :: (real, unit) adjacency) = Inr \<lparr>data = Vec [3/4], matrix_type = Some ''distance'', issymmetric = Flag True,
        is_single_matrix = Flag True, Y = DataFrame [], labels = Some (Labels [''a'', ''b''])\<rparr> \<and>
   squareform (\<lparr>data = Vec [1/4], matrix_type = Some ''similarity'', issymmetric = Flag True,
        is_single_matrix = Flag True, Y = DataFrame [], labels = Some (Labels [''a'', ''b''])\<rparr> :: (real, unit) adjacency) = Inr (Square (Mat 2 [[0, 1/4], [1/4, 0]])) \<and>
   map_array (\<lambda>x. 1 - x) (Mat 2 [[0, 1/4], [1/4, 0::real]]) = Mat 2 [[1, 3/4], [3/4, 1]] \<and>
   squareform (\<lparr>data = Vec [3/4], matrix_type = Some ''distance'', issymmetric = Flag True,
        is_single_matrix = Flag True, Y = DataFrame [], labels = Some (Labels [''a'', ''b''])\<rparr> :: (real, unit) adjacency) = Inr (Square (Mat 2 [[0, 3/4], [3/4, 0]])) \<and>
   Mat 2 [[0, 3/4], [3/4, 0]] \<noteq> Mat 2 [[1, 3/4], [3/4, 1::real]]"
proof -
  have sa: "squareform (\<lparr>data = Vec [1/4], matrix_type = Some ''similarity'', issymmetric = Flag True,
        is_single_matrix = Flag True, Y = DataFrame [], labels = Some (Labels [''a'', ''b''])\<rparr> :: (real, unit) adjacency) = Inr (Square (Mat 2 [[0, 1/4], [1/4, 0]]))"
    using squareform_single_symmetric [of 2 "[1/4::real]" "\<lparr>data = Vec [1/4], matrix_type = Some ''similarity'', issymmetric = Flag True,
        is_single_matrix = Flag True, Y = DataFrame [], labels = Some (Labels [''a'', ''b''])\<rparr> :: (real, unit) adjacency"]
    by (simp add: triu_indices_2 to_squareform_2)
  have sb: "squareform (\<lparr>data = Vec [3/4], matrix_type = Some ''distance'', issymmetric = Flag True,
        is_single_matrix = Flag True, Y = DataFrame [], labels = Some (Labels [''a'', ''b''])\<rparr> :: (real, unit) adjacency) = Inr (Square (Mat 2 [[0, 3/4], [3/4, 0]]))"
    using squareform_single_symmetric [of 2 "[3/4::real]" "\<lparr>data = Vec [3/4], matrix_type = Some ''distance'', issymmetric = Flag True,
        is_single_matrix = Flag True, Y = DataFrame [], labels = Some (Labels [''a'', ''b''])\<rparr> :: (real, unit) adjacency"]
    by (simp add: triu_indices_2 to_squareform_2)
  have "init (Array (Mat 2 [[1, 3/4], [3/4, 1::real]])) None (Some ''distance'')
          (Some (Labels [''a'', ''b''])) = Inr (\<lparr>data = Vec [3/4], matrix_type = Some ''distance'', issymmetric = Flag True,
        is_single_matrix = Flag True, Y = DataFrame [], labels = Some (Labels [''a'', ''b''])\<rparr> :: (real, unit) adjacency)"
    using init_typed_square [of 2 "[[1, 3/4], [3/4, 1::real]]" "''distance''"
        "Some (Labels [''a'', ''b''])", where ?'c = unit]
    by (simp add: triu_indices_2)
  then have "similarity_to_distance (\<lparr>data = Vec [1/4], matrix_type = Some ''similarity'', issymmetric = Flag True,
        is_single_matrix = Flag True, Y = DataFrame [], labels = Some (Labels [''a'', ''b''])\<rparr> :: (real, unit) adjacency) = Inr \<lparr>data = Vec [3/4], matrix_type = Some ''distance'', issymmetric = Flag True,
        is_single_matrix = Flag True, Y = DataFrame [], labels = Some (Labels [''a'', ''b''])\<rparr>"
    by (simp add: similarity_to_distance_def sa)
  then show ?thesis
    using sa sb by simp
qed

text \<open>
  C7, amended. \<^verbatim>\<open>similarity_to_distance\<close> on an instance that holds a single symmetric matrix
  of type \<^verbatim>\<open>'similarity'\<close> (stored vector of length \<open>n (n - 1) / 2\<close>, labels absent or of length
  \<open>n\<close>) returns a single-matrix instance of type \<^verbatim>\<open>'distance'\<close> that carries the same labels
  and whose stored vector is 1 minus the receiver's: its square form is 1 minus the
  receiver's square form off the diagonal and 0 on the diagonal. \<^verbatim>\<open>distance_to_similarity\<close> on
  such an instance of type \<^verbatim>\<open>'distance'\<close> returns a single-matrix instance of type
  \<^verbatim>\<open>'similarity'\<close> with the same labels. On an instance of any other \<^verbatim>\<open>matrix_type\<close> each of
  the two raises its ValueError. (What the two do on a stack of the right type is left out.)
\<close>

theorem conversion_typing:
  fixes a :: "('a::ring_1, 'c) adjacency" and b :: "(real, 'c) adjacency"
  shows
    "(matrix_type a = Some ''similarity'' \<and> is_single_matrix a = Flag True \<and>
      issymmetric a = Flag True \<and> data a = Vec v \<and> 0 < n \<and>
      length v = length (triu_indices n) \<and>
      (case labels a of None \<Rightarrow> True | Some l \<Rightarrow> labels_len l = n) \<longrightarrow>
        similarity_to_distance a =
          Inr \<lparr>data = Vec (map (\<lambda>x. 1 - x) v), matrix_type = Some ''distance'',
               issymmetric = Flag True, is_single_matrix = Flag True,
               Y = DataFrame [], labels = labels a\<rparr> \<and>
        squareform a = Inr (Square (Mat n (to_squareform_from_vector n v))) \<and>
        squareform (\<lparr>data = Vec (map (\<lambda>x. 1 - x) v), matrix_type = Some ''distance'',
               issymmetric = Flag True, is_single_matrix = Flag True,
               Y = DataFrame [], labels = labels a\<rparr> :: ('a, 'c) adjacency) =
          Inr (Square (Mat n
            (map (\<lambda>i. map (\<lambda>j. if i = j then 0
                                 else 1 - to_squareform_from_vector n v ! i ! j) [0..<n])
               [0..<n])))) \<and>
     (matrix_type a \<noteq> Some ''similarity'' \<longrightarrow>
        similarity_to_distance a = Inl (ValueError ''Matrix is not a similarity matrix.'')) \<and>
     (matrix_type b = Some ''distance'' \<and> is_single_matrix b = Flag True \<and>
      issymmetric b = Flag True \<and> data b = Vec w \<and> 0 < m \<and>
      length w = length (triu_indices m) \<and>
      (case labels b of None \<Rightarrow> True | Some l \<Rightarrow> labels_len l = m) \<longrightarrow>
        (\<exists>r. distance_to_similarity b beta = Inr r \<and>
             matrix_type r = Some ''similarity'' \<and> labels r = labels b \<and>
             is_single_matrix r = Flag True \<and> issymmetric r = Flag True)) \<and>
     (matrix_type b \<noteq> Some ''distance'' \<longrightarrow>
        distance_to_similarity b beta = Inl (ValueError ''Matrix is not a distance matrix.''))"
proof (intro conjI impI)
  assume h: "matrix_type a = Some ''similarity'' \<and> is_single_matrix a = Flag True \<and>
      issymmetric a = Flag True \<and> data a = Vec v \<and> 0 < n \<and>
      length v = length (triu_indices n) \<and>
      (case labels a of None \<Rightarrow> True | Some l \<Rightarrow> labels_len l = n)"
  then have n: "0 < n" and len: "length v = length (triu_indices n)"
    and lab: "case labels a of None \<Rightarrow> True | Some l \<Rightarrow> labels_len l = n"
    by simp_all
  let ?r = "\<lparr>data = Vec (map (\<lambda>x. 1 - x) v), matrix_type = Some ''distance'',
               issymmetric = Flag True, is_single_matrix = Flag True,
               Y = DataFrame [], labels = labels a\<rparr> :: ('a, 'c) adjacency"
  show sq: "squareform a = Inr (Square (Mat n (to_squareform_from_vector n v)))"
    by (rule squareform_single_symmetric [OF n len]) (use h in simp_all)
  have "init (Array (Mat n (map (map (\<lambda>x. 1 - x)) (to_squareform_from_vector n v))))
          None (Some ''distance'') (labels a) = Inr ?r"
    using init_typed_square [OF n _ _ lab, of "map (map (\<lambda>x. 1 - x)) (to_squareform_from_vector n v)"
        "''distance''", where ?'c = 'c]
    by (simp add: length_to_squareform triu_map_to_squareform [OF len])
  then show "similarity_to_distance a = Inr ?r"
    using h sq by (simp add: similarity_to_distance_def)
  have "squareform ?r = Inr (Square (Mat n (to_squareform_from_vector n (map (\<lambda>x. 1 - x) v))))"
    by (rule squareform_single_symmetric [OF n]) (simp_all add: len)
  then show "squareform ?r =
          Inr (Square (Mat n
            (map (\<lambda>i. map (\<lambda>j. if i = j then 0
                                 else 1 - to_squareform_from_vector n v ! i ! j) [0..<n])
               [0..<n])))"
    by (simp add: to_squareform_map [OF len])
next
  assume "matrix_type a \<noteq> Some ''similarity''"
  then show "similarity_to_distance a = Inl (ValueError ''Matrix is not a similarity matrix.'')"
    by (simp add: similarity_to_distance_def)
next
  assume h: "matrix_type b = Some ''distance'' \<and> is_single_matrix b = Flag True \<and>
      issymmetric b = Flag True \<and> data b = Vec w \<and> 0 < m \<and>
      length w = length (triu_indices m) \<and>
      (case labels b of None \<Rightarrow> True | Some l \<Rightarrow> labels_len l = m)"
  then have m: "0 < m" and len: "length w = length (triu_indices m)"
    and lab: "case labels b of None \<Rightarrow> True | Some l \<Rightarrow> labels_len l = m"
    by simp_all
  have sq: "squareform b = Inr (Square (Mat m (to_squareform_from_vector m w)))"
    by (rule squareform_single_symmetric [OF m len]) (use h in simp_all)
  define f where "f = (\<lambda>x::real. exp (- num_val beta * x /
      np_std (ravel (Mat m (to_squareform_from_vector m w)))))"
  have "\<exists>r :: (real, 'c) adjacency.
      init (Array (Mat m (map (map f) (to_squareform_from_vector m w))))
          None (Some ''similarity'') (labels b) = Inr r \<and>
      matrix_type r = Some ''similarity'' \<and> labels r = labels b \<and>
      is_single_matrix r = Flag True \<and> issymmetric r = Flag True"
    using init_typed_square [OF m _ _ lab, of "map (map f) (to_squareform_from_vector m w)"
        "''similarity''", where ?'c = 'c]
    by (simp add: length_to_squareform)
  then show "\<exists>r. distance_to_similarity b beta = Inr r \<and>
             matrix_type r = Some ''similarity'' \<and> labels r = labels b \<and>
             is_single_matrix r = Flag True \<and> issymmetric r = Flag True"
    using h sq by (simp add: distance_to_similarity_def f_def)
next
  assume "matrix_type b \<noteq> Some ''distance''"
  then show "distance_to_similarity b beta = Inl (ValueError ''Matrix is not a distance matrix.'')"
    by (simp add: distance_to_similarity_def)
qed

theorem conversion_typing_witness:
  "similarity_to_distance (\<lparr>data = Vec [1/4], matrix_type = Some ''similarity'', issymmetric = Flag True,
        is_single_matrix = Flag True, Y = DataFrame [], labels = Some (Labels [''a'', ''b''])\<rparr> :: (real, unit) adjacency) = Inr \<lparr>data = Vec [3/4], matrix_type = Some ''distance'', issymmetric = Flag True,
        is_single_matrix = Flag True, Y = DataFrame [], labels = Some (Labels [''a'', ''b''])\<rparr> \<and>
   squareform (\<lparr>data = Vec [3/4], matrix_type = Some ''distance'', issymmetric = Flag True,
        is_single_matrix = Flag True, Y = DataFrame [], labels = Some (Labels [''a'', ''b''])\<rparr> :: (real, unit) adjacency) = Inr (Square (Mat 2 [[0, 3/4], [3/4, 0]])) \<and>
   similarity_to_distance (\<lparr>data = Vec [3/4], matrix_type = Some ''distance'', issymmetric = Flag True,
        is_single_matrix = Flag True, Y = DataFrame [], labels = Some (Labels [''a'', ''b''])\<rparr> :: (real, unit) adjacency) =
     Inl (ValueError ''Matrix is not a similarity matrix.'') \<and>
   (\<exists>r. distance_to_similarity (\<lparr>data = Vec [3/4], matrix_type = Some ''distance'', issymmetric = Flag True,
        is_single_matrix = Flag True, Y = DataFrame [], labels = Some (Labels [''a'', ''b''])\<rparr> :: (real, unit) adjacency) (PyInt 1) = Inr r \<and>
        matrix_type r = Some ''similarity'' \<and> labels r = Some (Labels [''a'', ''b''])) \<and>
   distance_to_similarity (\<lparr>data = Vec [1/4], matrix_type = Some ''similarity'', issymmetric = Flag True,
        is_single_matrix = Flag True, Y = DataFrame [], labels = Some (Labels [''a'', ''b''])\<rparr> :: (real, unit) adjacency) (PyInt 1) =
     Inl (ValueError ''Matrix is not a distance matrix.'')"
proof -
  have up2: "[0..<2] = [0, 1]" by (simp add: upt_rec)
  note t = conversion_typing [of "\<lparr>data = Vec [1/4], matrix_type = Some ''similarity'', issymmetric = Flag True,
        is_single_matrix = Flag True, Y = DataFrame [], labels = Some (Labels [''a'', ''b''])\<rparr> :: (real, unit) adjacency" "[1/4]" 2
      "\<lparr>data = Vec [3/4], matrix_type = Some ''distance'', issymmetric = Flag True,
        is_single_matrix = Flag True, Y = DataFrame [], labels = Some (Labels [''a'', ''b''])\<rparr> :: (real, unit) adjacency" "[3/4]" 2 "PyInt 1"]
  note u = conversion_typing [of "\<lparr>data = Vec [3/4], matrix_type = Some ''distance'', issymmetric = Flag True,
        is_single_matrix = Flag True, Y = DataFrame [], labels = Some (Labels [''a'', ''b''])\<rparr> :: (real, unit) adjacency" "[3/4]" 2
      "\<lparr>data = Vec [1/4], matrix_type = Some ''similarity'', issymmetric = Flag True,
        is_single_matrix = Flag True, Y = DataFrame [], labels = Some (Labels [''a'', ''b''])\<rparr> :: (real, unit) adjacency" "[1/4]" 2 "PyInt 1"]
  have c1: "similarity_to_distance (\<lparr>data = Vec [1/4], matrix_type = Some ''similarity'', issymmetric = Flag True,
        is_single_matrix = Flag True, Y = DataFrame [], labels = Some (Labels [''a'', ''b''])\<rparr> :: (real, unit) adjacency) = Inr \<lparr>data = Vec [3/4], matrix_type = Some ''distance'', issymmetric = Flag True,
        is_single_matrix = Flag True, Y = DataFrame [], labels = Some (Labels [''a'', ''b''])\<rparr> \<and>
      squareform (\<lparr>data = Vec [3/4], matrix_type = Some ''distance'', issymmetric = Flag True,
        is_single_matrix = Flag True, Y = DataFrame [], labels = Some (Labels [''a'', ''b''])\<rparr> :: (real, unit) adjacency) = Inr (Square (Mat 2 [[0, 3/4], [3/4, 0]]))"
    using t [THEN conjunct1] by (simp add: triu_indices_2 to_squareform_2 up2)
  have c2: "\<exists>r. distance_to_similarity (\<lparr>data = Vec [3/4], matrix_type = Some ''distance'', issymmetric = Flag True,
        is_single_matrix = Flag True, Y = DataFrame [], labels = Some (Labels [''a'', ''b''])\<rparr> :: (real, unit) adjacency) (PyInt 1) = Inr r \<and>
        matrix_type r = Some ''similarity'' \<and> labels r = Some (Labels [''a'', ''b''])"
    using t [THEN conjunct2, THEN conjunct2, THEN conjunct1]
    by (auto simp: triu_indices_2)
  have c3: "similarity_to_distance (\<lparr>data = Vec [3/4], matrix_type = Some ''distance'', issymmetric = Flag True,
        is_single_matrix = Flag True, Y = DataFrame [], labels = Some (Labels [''a'', ''b''])\<rparr> :: (real, unit) adjacency) =
     Inl (ValueError ''Matrix is not a similarity matrix.'')"
    using u [THEN conjunct2, THEN conjunct1] by simp
  have c4: "distance_to_similarity (\<lparr>data = Vec [1/4], matrix_type = Some ''similarity'', issymmetric = Flag True,
        is_single_matrix = Flag True, Y = DataFrame [], labels = Some (Labels [''a'', ''b''])\<rparr> :: (real, unit) adjacency) (PyInt 1) =
     Inl (ValueError ''Matrix is not a distance matrix.'')"
    using u [THEN conjunct2, THEN conjunct2, THEN conjunct2] by simp
  show ?thesis
    using c1 c2 c3 c4 by (intro conjI) simp_all
qed

text \<open>
  C8, as the claim states it, fails on float64 data, the dtype of an ordinary similarity
  matrix: the sum is rounded, and subtracting gives back another number. Here \<open>A\<close> holds
  the float64 of the literal \<open>0.1\<close> and \<open>B\<close> that of \<open>0.2\<close>; \<open>A + B\<close> holds
  \<open>0.30000000000000004\<close> (a tie, rounded to the even significand) and \<open>(A + B) - B\<close>
  holds \<open>0.10000000000000003\<close>, which is not the stored value of \<open>A\<close>.
\<close>

theorem float64_add_sub_counterexample:
  "round_f64 (1 / 10) = 3602879701896397 / 36028797018963968 \<and>
   round_f64 (1 / 5) = 3602879701896397 / 18014398509481984 \<and>
   add_f64 (\<lparr>data = Vec [3602879701896397 / 36028797018963968], matrix_type = Some ''similarity'', issymmetric = Flag True,
       is_single_matrix = Flag True, Y = DataFrame [], labels = None\<rparr> :: (rat, unit) adjacency) (Instance \<lparr>data = Vec [3602879701896397 / 18014398509481984], matrix_type = Some ''similarity'', issymmetric = Flag True,
       is_single_matrix = Flag True, Y = DataFrame [], labels = None\<rparr>) = Inr \<lparr>data = Vec [1351079888211149 / 4503599627370496], matrix_type = Some ''similarity'', issymmetric = Flag True,
       is_single_matrix = Flag True, Y = DataFrame [], labels = None\<rparr> \<and>
   sub_f64 (\<lparr>data = Vec [1351079888211149 / 4503599627370496], matrix_type = Some ''similarity'', issymmetric = Flag True,
       is_single_matrix = Flag True, Y = DataFrame [], labels = None\<rparr> :: (rat, unit) adjacency) (Instance \<lparr>data = Vec [3602879701896397 / 18014398509481984], matrix_type = Some ''similarity'', issymmetric = Flag True,
       is_single_matrix = Flag True, Y = DataFrame [], labels = None\<rparr>) = Inr \<lparr>data = Vec [1801439850948199 / 18014398509481984], matrix_type = Some ''similarity'', issymmetric = Flag True,
       is_single_matrix = Flag True, Y = DataFrame [], labels = None\<rparr> \<and>
   stored (\<lparr>data = Vec [1801439850948199 / 18014398509481984], matrix_type = Some ''similarity'', issymmetric = Flag True,
       is_single_matrix = Flag True, Y = DataFrame [], labels = None\<rparr> :: (rat, unit) adjacency) \<noteq> stored (\<lparr>data = Vec [3602879701896397 / 36028797018963968], matrix_type = Some ''similarity'', issymmetric = Flag True,
       is_single_matrix = Flag True, Y = DataFrame [], labels = None\<rparr> :: (rat, unit) adjacency)"
proof -
  have t: "round_f64 (1 / 10) = 3602879701896397 / 36028797018963968"
    using round_f64_eqI [of "1 / 10" "- 4" "- 56" 7205759403792794]
    by (simp add: power_int_minus)
  have f: "round_f64 (1 / 5) = 3602879701896397 / 18014398509481984"
    using round_f64_eqI [of "1 / 5" "- 3" "- 55" 7205759403792794]
    by (simp add: power_int_minus)
  have "round_half_even (10808639105689191 / 2) = 5404319552844596"
    using round_half_even_tie [of "10808639105689191 / 2" 5404319552844595] by simp
  then have s: "f64_add (3602879701896397 / 36028797018963968) (3602879701896397 / 18014398509481984) = 1351079888211149 / 4503599627370496"
    using round_f64_exponent [of "3602879701896397 / 36028797018963968 + 3602879701896397 / 18014398509481984" "- 2" "- 54"]
    by (simp add: f64_add_def power_int_minus)
  have r: "f64_sub (1351079888211149 / 4503599627370496) (3602879701896397 / 18014398509481984) = 1801439850948199 / 18014398509481984"
    using round_f64_eqI [of "1351079888211149 / 4503599627370496 - 3602879701896397 / 18014398509481984" "- 4" "- 56" 7205759403792796]
    by (simp add: f64_sub_def power_int_minus)
  show ?thesis
    using t f s r by (simp add: add_f64_def sub_f64_def binop_def shape_def stored_def)
qed

text \<open>
  C8, amended. For two instances \<open>A\<close> and \<open>B\<close> of one \<^verbatim>\<open>shape()\<close> whose arrays are of
  an exact dtype (numpy's integers: the arithmetic of a ring, wrap-around included),
  \<open>(A + B) - B\<close> is \<open>A\<close>, stored vector and all. \<open>A * 1\<close> is \<open>A\<close>, for an exact
  dtype and for float64 data. For either dtype and whatever the right operand, the result
  of \<open>+\<close>, \<open>-\<close> or \<open>*\<close> differs from the left operand in \<^verbatim>\<open>data\<close> at most; and when the
  shapes of two instances differ, each of the three operators raises the ValueError of the
  shape mismatch. (Of \<open>(A + B) - B\<close> on float64 data nothing is said.)
\<close>

theorem arithmetic_identities:
  fixes A B :: "('a::ring_1, 'c) adjacency" and F G :: "(rat, 'c) adjacency"
  shows
    "(shape A = shape B \<and> wf_ndarray (data A) \<and> wf_ndarray (data B) \<longrightarrow>
        (\<exists>S. add A (Instance B) = Inr S \<and> sub S (Instance B) = Inr A)) \<and>
     mul A (Number (PyInt 1)) = Inr A \<and>
     (list_all is_f64 (stored F) \<longrightarrow> mul_f64 F (Number (PyInt 1)) = Inr F) \<and>
     (\<forall>y r. (add A y = Inr r \<or> sub A y = Inr r \<or> mul A y = Inr r) \<longrightarrow>
        r\<lparr>data := data A\<rparr> = A) \<and>
     (\<forall>y r. (add_f64 F y = Inr r \<or> sub_f64 F y = Inr r \<or> mul_f64 F y = Inr r) \<longrightarrow>
        r\<lparr>data := data F\<rparr> = F) \<and>
     (shape A \<noteq> shape B \<longrightarrow>
        add A (Instance B) =
          Inl (ValueError ''Both Adjacency() instances need to be the same shape.'') \<and>
        sub A (Instance B) =
          Inl (ValueError ''Both Adjacency() instances need to be the same shape.'') \<and>
        mul A (Instance B) =
          Inl (ValueError ''Both Adjacency() instances need to be the same shape.'')) \<and>
     (shape F \<noteq> shape G \<longrightarrow>
        add_f64 F (Instance G) =
          Inl (ValueError ''Both Adjacency() instances need to be the same shape.'') \<and>
        sub_f64 F (Instance G) =
          Inl (ValueError ''Both Adjacency() instances need to be the same shape.'') \<and>
        mul_f64 F (Instance G) =
          Inl (ValueError ''Both Adjacency() instances need to be the same shape.''))"
proof (intro conjI impI allI)
  assume h: "shape A = shape B \<and> wf_ndarray (data A) \<and> wf_ndarray (data B)"
  let ?S = "A\<lparr>data := zip_array (+) (data A) (data B)\<rparr>"
  have "add A (Instance B) = Inr ?S"
    using h by (simp add: add_def binop_def)
  moreover have "shape ?S = shape B"
    using h np_shape_zip_array [of "data A" "data B" "(+)"] by (simp add: shape_def)
  then have "sub ?S (Instance B) = Inr A"
    using h zip_array_add_sub [of "data A" "data B"] by (simp add: sub_def binop_def shape_def)
  ultimately show "\<exists>S. add A (Instance B) = Inr S \<and> sub S (Instance B) = Inr A"
    by blast
next
  show "mul A (Number (PyInt 1)) = Inr A"
    by (simp add: mul_def binop_def map_array_ident)
next
  assume h: "list_all is_f64 (stored F)"
  have one: "round_f64 1 = 1"
    using round_f64_eqI [of 1 0 "- 52" 4503599627370496]
    by (simp add: power_int_minus)
  have "list_all (\<lambda>x. f64_mul x (f64_of_int 1) = x) (ravel (data F))"
    using h by (simp add: f64_mul_def f64_of_int_def one is_f64_def stored_def list_all_iff)
  then have "map_array (\<lambda>x. f64_mul x (f64_of_int 1)) (data F) = data F"
    by (rule map_array_fixed)
  then show "mul_f64 F (Number (PyInt 1)) = Inr F"
    by (simp add: mul_f64_def binop_def)
next
  fix y r
  assume "add A y = Inr r \<or> sub A y = Inr r \<or> mul A y = Inr r"
  then show "r\<lparr>data := data A\<rparr> = A"
    unfolding add_def sub_def mul_def using binop_metadata by blast
next
  fix y r
  assume "add_f64 F y = Inr r \<or> sub_f64 F y = Inr r \<or> mul_f64 F y = Inr r"
  then show "r\<lparr>data := data F\<rparr> = F"
    unfolding add_f64_def sub_f64_def mul_f64_def using binop_metadata by blast
qed (simp_all add: add_def sub_def mul_def add_f64_def sub_f64_def mul_f64_def binop_def)

theorem arithmetic_identities_witness:
  "(\<exists>S. add \<lparr>data = Vec [3, 4, 5::int], matrix_type = Some ''distance'', issymmetric = Flag True,
            is_single_matrix = Flag True, Y = DataFrame ([] :: unit list list), labels = None\<rparr>
          (Instance \<lparr>data = Vec [1, 1, 2], matrix_type = Some ''similarity'', issymmetric = Flag True,
            is_single_matrix = Flag True, Y = DataFrame [], labels = None\<rparr>) = Inr S \<and>
        sub S (Instance \<lparr>data = Vec [1, 1, 2], matrix_type = Some ''similarity'', issymmetric = Flag True,
            is_single_matrix = Flag True, Y = DataFrame [], labels = None\<rparr>) =
          Inr \<lparr>data = Vec [3, 4, 5], matrix_type = Some ''distance'', issymmetric = Flag True,
            is_single_matrix = Flag True, Y = DataFrame [], labels = None\<rparr>) \<and>
   add \<lparr>data = Vec [3, 4, 5::int], matrix_type = Some ''distance'', issymmetric = Flag True,
            is_single_matrix = Flag True, Y = DataFrame ([] :: unit list list), labels = None\<rparr>
       (Instance \<lparr>data = Vec [1], matrix_type = Some ''distance'', issymmetric = Flag True,
            is_single_matrix = Flag True, Y = DataFrame [], labels = None\<rparr>) =
     Inl (ValueError ''Both Adjacency() instances need to be the same shape.'') \<and>
   mul_f64 (\<lparr>data = Vec [3602879701896397 / 36028797018963968], matrix_type = Some ''similarity'', issymmetric = Flag True,
       is_single_matrix = Flag True, Y = DataFrame [], labels = None\<rparr> :: (rat, unit) adjacency) (Number (PyInt 1)) = Inr \<lparr>data = Vec [3602879701896397 / 36028797018963968], matrix_type = Some ''similarity'', issymmetric = Flag True,
       is_single_matrix = Flag True, Y = DataFrame [], labels = None\<rparr> \<and>
   add_f64 (\<lparr>data = Vec [3602879701896397 / 36028797018963968], matrix_type = Some ''similarity'', issymmetric = Flag True,
       is_single_matrix = Flag True, Y = DataFrame [], labels = None\<rparr> :: (rat, unit) adjacency)
       (Instance \<lparr>data = Vec [1, 2], matrix_type = Some ''similarity'', issymmetric = Flag True,
            is_single_matrix = Flag True, Y = DataFrame [], labels = None\<rparr>) =
     Inl (ValueError ''Both Adjacency() instances need to be the same shape.'')"
proof -
  let ?A = "\<lparr>data = Vec [3, 4, 5::int], matrix_type = Some ''distance'', issymmetric = Flag True,
            is_single_matrix = Flag True, Y = DataFrame ([] :: unit list list), labels = None\<rparr>"
  let ?B = "\<lparr>data = Vec [1, 1, 2::int], matrix_type = Some ''similarity'', issymmetric = Flag True,
            is_single_matrix = Flag True, Y = DataFrame ([] :: unit list list), labels = None\<rparr>"
  let ?C = "\<lparr>data = Vec [1::int], matrix_type = Some ''distance'', issymmetric = Flag True,
            is_single_matrix = Flag True, Y = DataFrame ([] :: unit list list), labels = None\<rparr>"
  let ?F = "\<lparr>data = Vec [3602879701896397 / 36028797018963968], matrix_type = Some ''similarity'', issymmetric = Flag True,
       is_single_matrix = Flag True, Y = DataFrame [], labels = None\<rparr> :: (rat, unit) adjacency"
  let ?G = "\<lparr>data = Vec [1, 2::rat], matrix_type = Some ''similarity'', issymmetric = Flag True,
            is_single_matrix = Flag True, Y = DataFrame ([] :: unit list list), labels = None\<rparr>"
  have d: "is_f64 (3602879701896397 / 36028797018963968)"
    using round_f64_eqI [of "3602879701896397 / 36028797018963968" "- 4" "- 56" 7205759403792794]
    by (simp add: is_f64_def power_int_minus)
  have c1: "\<exists>S. add ?A (Instance ?B) = Inr S \<and> sub S (Instance ?B) = Inr ?A"
    using arithmetic_identities [of ?A ?B ?F ?G, THEN conjunct1] by (simp add: shape_def)
  have c2: "add ?A (Instance ?C) =
     Inl (ValueError ''Both Adjacency() instances need to be the same shape.'')"
    using arithmetic_identities [of ?A ?C ?F ?G, THEN conjunct2, THEN conjunct2, THEN conjunct2,
        THEN conjunct2, THEN conjunct2, THEN conjunct1]
    by (simp add: shape_def)
  have c3: "mul_f64 ?F (Number (PyInt 1)) = Inr ?F"
    using arithmetic_identities [of ?A ?B ?F ?G, THEN conjunct2, THEN conjunct2, THEN conjunct1] d
    by (simp add: stored_def)
  have c4: "add_f64 ?F (Instance ?G) =
     Inl (ValueError ''Both Adjacency() instances need to be the same shape.'')"
    using arithmetic_identities [of ?A ?B ?F ?G, THEN conjunct2, THEN conjunct2, THEN conjunct2,
        THEN conjunct2, THEN conjunct2, THEN conjunct2]
    by (simp add: shape_def)
  show ?thesis
    using c1 c2 c3 c4 by (intro conjI)
qed

text \<open>
  C9. \<^verbatim>\<open>ttest\<close> on an instance whose \<^verbatim>\<open>is_single_matrix\<close> is true raises its ValueError, whatever
  the statistics it would call and whatever \<^verbatim>\<open>permutation\<close> is; on a stack it goes on to
  the statistics.
\<close>

theorem ttest_single_matrix:
  "(is_single_matrix a = Flag True \<longrightarrow>
      ttest stats a permutation = Inl (ValueError ''t-test cannot be run on single matrices.'')) \<and>
   (is_single_matrix a = Flag False \<longrightarrow> ttest stats a permutation = stats a permutation)"
  by (simp add: ttest_def)

theorem ttest_single_matrix_witness:
  "ttest (\<lambda>a p. Inr (len a))
     \<lparr>data = Vec [3, 4, 5::int], matrix_type = Some ''distance'', issymmetric = Flag True,
      is_single_matrix = Flag True, Y = DataFrame ([] :: unit list list), labels = None\<rparr> False =
     Inl (ValueError ''t-test cannot be run on single matrices.'') \<and>
   ttest (\<lambda>a p. Inr (len a))
     \<lparr>data = Mat 1 [[3], [4::int]], matrix_type = Some ''distance'', issymmetric = Flag True,
      is_single_matrix = Flag False, Y = DataFrame ([] :: unit list list), labels = None\<rparr> False =
     Inr 2"
proof -
  let ?a = "\<lparr>data = Vec [3, 4, 5::int], matrix_type = Some ''distance'', issymmetric = Flag True,
      is_single_matrix = Flag True, Y = DataFrame ([] :: unit list list), labels = None\<rparr>"
  let ?b = "\<lparr>data = Mat 1 [[3], [4::int]], matrix_type = Some ''distance'', issymmetric = Flag True,
      is_single_matrix = Flag False, Y = DataFrame ([] :: unit list list), labels = None\<rparr>"
  have c1: "ttest (\<lambda>a p. Inr (len a)) ?a False =
     Inl (ValueError ''t-test cannot be run on single matrices.'')"
    using ttest_single_matrix [of ?a "\<lambda>a p. Inr (len a)" False, THEN conjunct1] by simp
  have c2: "ttest (\<lambda>a p. Inr (len a)) ?b False = Inr 2"
    using ttest_single_matrix [of ?b "\<lambda>a p. Inr (len a)" False, THEN conjunct2]
    by (simp add: len_def)
  show ?thesis
    using c1 c2 by (intro conjI)
qed

text \<open>
  C10. With a right operand that is neither a number (\<^verbatim>\<open>int\<close>, \<^verbatim>\<open>float\<close>) nor an Adjacency,
  each of \<open>A + y\<close>, \<open>A - y\<close> and \<open>A * y\<close> returns the copy of \<open>A\<close> unchanged and raises
  nothing, for an array of an exact dtype and for float64 data alike.
\<close>

theorem other_operand_returns_copy:
  fixes A :: "('a::ring_1, 'c) adjacency" and F :: "(rat, 'c) adjacency"
  shows "((\<forall>k. y \<noteq> Number k) \<and> (\<forall>b. y \<noteq> Instance b) \<longrightarrow>
            add A y = Inr A \<and> sub A y = Inr A \<and> mul A y = Inr A) \<and>
         ((\<forall>k. z \<noteq> Number k) \<and> (\<forall>b. z \<noteq> Instance b) \<longrightarrow>
            add_f64 F z = Inr F \<and> sub_f64 F z = Inr F \<and> mul_f64 F z = Inr F)"
  by (cases y; cases z)
    (simp_all add: add_def sub_def mul_def add_f64_def sub_f64_def mul_f64_def binop_def)

theorem other_operand_returns_copy_witness:
  "add \<lparr>data = Vec [3, 4, 5::int], matrix_type = Some ''distance'', issymmetric = Flag True,
        is_single_matrix = Flag True, Y = DataFrame ([] :: unit list list), labels = None\<rparr>
       (PyStr ''abc'') =
     Inr \<lparr>data = Vec [3, 4, 5], matrix_type = Some ''distance'', issymmetric = Flag True,
          is_single_matrix = Flag True, Y = DataFrame [], labels = None\<rparr> \<and>
   sub \<lparr>data = Vec [3, 4, 5::int], matrix_type = Some ''distance'', issymmetric = Flag True,
        is_single_matrix = Flag True, Y = DataFrame ([] :: unit list list), labels = None\<rparr>
       (PyList [1, 2, 3]) =
     Inr \<lparr>data = Vec [3, 4, 5], matrix_type = Some ''distance'', issymmetric = Flag True,
          is_single_matrix = Flag True, Y = DataFrame [], labels = None\<rparr> \<and>
   mul \<lparr>data = Vec [3, 4, 5::int], matrix_type = Some ''distance'', issymmetric = Flag True,
        is_single_matrix = Flag True, Y = DataFrame ([] :: unit list list), labels = None\<rparr>
       (PyArray (Vec [1, 2, 3])) =
     Inr \<lparr>data = Vec [3, 4, 5], matrix_type = Some ''distance'', issymmetric = Flag True,
          is_single_matrix = Flag True, Y = DataFrame [], labels = None\<rparr> \<and>
   add_f64 \<lparr>data = Vec [1 / 2, 1 / 4], matrix_type = Some ''directed'', issymmetric = Flag False,
        is_single_matrix = Flag True, Y = DataFrame ([] :: unit list list), labels = None\<rparr>
       PyNone =
     Inr \<lparr>data = Vec [1 / 2, 1 / 4], matrix_type = Some ''directed'', issymmetric = Flag False,
          is_single_matrix = Flag True, Y = DataFrame [], labels = None\<rparr>"
proof -
  let ?A = "\<lparr>data = Vec [3, 4, 5::int], matrix_type = Some ''distance'', issymmetric = Flag True,
        is_single_matrix = Flag True, Y = DataFrame ([] :: unit list list), labels = None\<rparr>"
  let ?F = "\<lparr>data = Vec [1 / 2, 1 / 4 :: rat], matrix_type = Some ''directed'',
        issymmetric = Flag False, is_single_matrix = Flag True,
        Y = DataFrame ([] :: unit list list), labels = None\<rparr>"
  show ?thesis
    using other_operand_returns_copy [where y = "PyStr ''abc''" and A = ?A and z = PyNone and F = ?F]
      other_operand_returns_copy [where y = "PyList [1, 2, 3]" and A = ?A and z = PyNone and F = ?F]
      other_operand_returns_copy [where y = "PyArray (Vec [1, 2, 3])" and A = ?A and z = PyNone
        and F = ?F]
    by simp
qed

end
